theory Spec2Isabelle
  imports Main "HOL-Library.AList" "HOL-Library.Sublist" "HOL-Library.Word"
begin

section \<open>gomail: reading a raw message into a Message (readfrom.go)\<close>

text \<open>
  The Go file \<^verbatim>\<open>readfrom.go\<close> parses an RFC 822 / MIME document into a
  \<^verbatim>\<open>Message\<close>.  It does so through the Go standard library
  (\<^verbatim>\<open>net/mail\<close>, \<^verbatim>\<open>mime\<close>, \<^verbatim>\<open>mime/multipart\<close>,
  \<^verbatim>\<open>encoding/base64\<close>, \<^verbatim>\<open>net/textproto\<close>, \<^verbatim>\<open>strings\<close>).
  The functions of the repository are embedded one by one, with the names and the
  order of the checks of the source.  The standard library is not part of the
  repository; it enters the model in three ways:
  \<^item> small pure string functions (\<^verbatim>\<open>CanonicalMIMEHeaderKey\<close>,
    \<^verbatim>\<open>Header.Get\<close>, \<^verbatim>\<open>strings.TrimSpace\<close>, \<^verbatim>\<open>strings.HasPrefix\<close>)
    are written out;
  \<^item> \<^verbatim>\<open>mime.ParseMediaType\<close> and the base64 stream decoder are parameters
    (the record \<open>stdlib\<close>), so every theorem holds for whatever they compute,
    and where a theorem needs a fact about them (the media-type parser rejects the
    empty value) the fact is a hypothesis;
  \<^item> an input stream is represented by what the library reads from it: the bytes
    and the final error of a plain read, and the sequence of parts and the final
    error that a \<^verbatim>\<open>multipart.Reader\<close> on it hands out.
\<close>

subsection \<open>Errors\<close>

text \<open>
  Go \<^verbatim>\<open>error\<close> values.  \<open>io_EOF\<close> is the sentinel \<^verbatim>\<open>io.EOF\<close>, the only error
  the source compares with.  \<open>LibraryError\<close> is an error made by the standard library,
  with its message.  \<open>BlankFileName\<close> is \<^verbatim>\<open>errors.New("Invalid blank file name")\<close>
  and \<open>UnknownPartEncoding enc\<close> is
  \<^verbatim>\<open>fmt.Errorf("Unknown part encoding: %s", enc)\<close>, the two errors the source makes.
\<close>

datatype error = io_EOF | LibraryError string | BlankFileName | UnknownPartEncoding string

fun Error :: "error \<Rightarrow> string" where
  "Error io_EOF = ''EOF''"
| "Error (LibraryError s) = s"
| "Error BlankFileName = ''Invalid blank file name''"
| "Error (UnknownPartEncoding enc) = ''Unknown part encoding: '' @ enc"

subsection \<open>Headers\<close>

text \<open>
  \<^verbatim>\<open>textproto.MIMEHeader\<close>, \<^verbatim>\<open>mail.Header\<close> and gomail's \<^verbatim>\<open>header\<close> are all
  \<^verbatim>\<open>map[string][]string\<close>.  A Go map is kept as an association list: \<open>map_of\<close>
  is the lookup \<^verbatim>\<open>h[k]\<close>, \<open>AList.update\<close> the store \<^verbatim>\<open>h[k] = v\<close>, and the order
  of the list is the order in which \<^verbatim>\<open>range\<close> visits the entries (Go leaves that
  order open, so the theorems hold for every order).
\<close>

type_synonym MIMEHeader = "(string \<times> string list) list"

definition isLower :: "char \<Rightarrow> bool" where
  "isLower c = (c \<in> set ''abcdefghijklmnopqrstuvwxyz'')"

definition isUpper :: "char \<Rightarrow> bool" where
  "isUpper c = (c \<in> set ''ABCDEFGHIJKLMNOPQRSTUVWXYZ'')"

definition isDigit :: "char \<Rightarrow> bool" where
  "isDigit c = (c \<in> set ''0123456789'')"

definition toUpper :: "char \<Rightarrow> char" where
  "toUpper c = (case map_of (zip ''abcdefghijklmnopqrstuvwxyz'' ''ABCDEFGHIJKLMNOPQRSTUVWXYZ'') c of
                  Some u \<Rightarrow> u | None \<Rightarrow> c)"

definition toLower :: "char \<Rightarrow> char" where
  "toLower c = (case map_of (zip ''ABCDEFGHIJKLMNOPQRSTUVWXYZ'' ''abcdefghijklmnopqrstuvwxyz'') c of
                  Some l \<Rightarrow> l | None \<Rightarrow> c)"

text \<open>
  \<^verbatim>\<open>textproto.validHeaderFieldByte\<close>: the token characters of RFC 7230, that is
  letters, digits and \<^verbatim>\<open>!#$%&'*+-.^_`|~\<close>.
\<close>

definition validHeaderFieldByte :: "char \<Rightarrow> bool" where
  "validHeaderFieldByte c =
     (isLower c \<or> isUpper c \<or> isDigit c \<or> c \<in> set ''!#$%&*+-.^_`|~'' \<or> c = CHR 0x27)"

text \<open>
  The loop of \<^verbatim>\<open>textproto.canonicalMIMEHeaderKey\<close>: the first letter and every
  letter after a dash in upper case, every other letter in lower case.
\<close>

fun canonicalLoop :: "bool \<Rightarrow> string \<Rightarrow> string" where
  "canonicalLoop upper [] = []"
| "canonicalLoop upper (c # cs) =
     (let c' = (if upper \<and> isLower c then toUpper c
                else if \<not> upper \<and> isUpper c then toLower c
                else c)
      in c' # canonicalLoop (c' = CHR ''-'') cs)"

text \<open>
  \<^verbatim>\<open>textproto.CanonicalMIMEHeaderKey\<close>: a key with a byte that is not a token
  character (a space, for one) is returned unchanged, as current Go releases do; on
  keys made of token characters, such as the four keys the source names, all releases
  agree.
\<close>

definition CanonicalMIMEHeaderKey :: "string \<Rightarrow> string" where
  "CanonicalMIMEHeaderKey s = (if list_all validHeaderFieldByte s then canonicalLoop True s else s)"

text \<open>
  \<^verbatim>\<open>Header.Get(key)\<close>: the first value stored under the canonical form of the key,
  the empty string when there is none.
\<close>

definition Get :: "MIMEHeader \<Rightarrow> string \<Rightarrow> string" where
  "Get h key =
     (case map_of h (CanonicalMIMEHeaderKey key) of
        None \<Rightarrow> []
      | Some v \<Rightarrow> (case v of [] \<Rightarrow> [] | x # _ \<Rightarrow> x))"

text \<open>
  \<^verbatim>\<open>CopyOnlyHeaders(h, list)\<close> of the header file: a new header with the entries of
  \<open>h\<close> stored under the keys of \<open>list\<close>, looked up as they are written.
\<close>

fun CopyOnlyHeaders_loop :: "MIMEHeader \<Rightarrow> string list \<Rightarrow> MIMEHeader \<Rightarrow> MIMEHeader" where
  "CopyOnlyHeaders_loop h [] newh = newh"
| "CopyOnlyHeaders_loop h (hn # list) newh =
     (case map_of h hn of
        Some hv \<Rightarrow> CopyOnlyHeaders_loop h list (AList.update hn hv newh)
      | None \<Rightarrow> CopyOnlyHeaders_loop h list newh)"

definition CopyOnlyHeaders :: "MIMEHeader \<Rightarrow> string list \<Rightarrow> MIMEHeader" where
  "CopyOnlyHeaders h list = CopyOnlyHeaders_loop h list []"

subsection \<open>strings.TrimSpace\<close>

text \<open>
  \<^verbatim>\<open>strings.TrimSpace\<close> removes the leading and trailing white space of a string,
  white space being the runes of Unicode's White\_Space property.  A Go string is a
  byte sequence read as UTF-8, so each such rune is listed with its encoding:
  U+0009 to U+000D, U+0020, U+0085, U+00A0, U+1680, U+2000 to U+200A, U+2028, U+2029,
  U+202F, U+205F and U+3000.
\<close>

definition spaceRunes :: "string list" where
  "spaceRunes =
     [[CHR 0x09], [CHR 0x0A], [CHR 0x0B], [CHR 0x0C], [CHR 0x0D], [CHR 0x20],
      [CHR 0xC2, CHR 0x85], [CHR 0xC2, CHR 0xA0],
      [CHR 0xE1, CHR 0x9A, CHR 0x80],
      [CHR 0xE2, CHR 0x80, CHR 0x80], [CHR 0xE2, CHR 0x80, CHR 0x81],
      [CHR 0xE2, CHR 0x80, CHR 0x82], [CHR 0xE2, CHR 0x80, CHR 0x83],
      [CHR 0xE2, CHR 0x80, CHR 0x84], [CHR 0xE2, CHR 0x80, CHR 0x85],
      [CHR 0xE2, CHR 0x80, CHR 0x86], [CHR 0xE2, CHR 0x80, CHR 0x87],
      [CHR 0xE2, CHR 0x80, CHR 0x88], [CHR 0xE2, CHR 0x80, CHR 0x89],
      [CHR 0xE2, CHR 0x80, CHR 0x8A],
      [CHR 0xE2, CHR 0x80, CHR 0xA8], [CHR 0xE2, CHR 0x80, CHR 0xA9],
      [CHR 0xE2, CHR 0x80, CHR 0xAF],
      [CHR 0xE2, CHR 0x81, CHR 0x9F],
      [CHR 0xE3, CHR 0x80, CHR 0x80]]"

text \<open>
  Dropping the white space at the front: rune by rune, as long as the string starts
  with the encoding of a white-space rune.  The first argument bounds the number of
  runes by the number of bytes.
\<close>

fun trimLeft :: "string list \<Rightarrow> nat \<Rightarrow> string \<Rightarrow> string" where
  "trimLeft ws 0 s = s"
| "trimLeft ws (Suc k) s =
     (case find (\<lambda>w. prefix w s) ws of
        Some w \<Rightarrow> (if w = [] then s else trimLeft ws k (drop (length w) s))
      | None \<Rightarrow> s)"

definition TrimSpace :: "string \<Rightarrow> string" where
  "TrimSpace s =
     (let l = trimLeft spaceRunes (length s) s
      in rev (trimLeft (map rev spaceRunes) (length l) (rev l)))"

subsection \<open>Streams and the standard library\<close>

text \<open>
  An \<^verbatim>\<open>io.Reader\<close>, seen through the two ways the source reads one.
  \<^item> Read as bytes (\<^verbatim>\<open>bytes.Buffer.ReadFrom\<close>, the base64 decoder): it delivers
    \<open>sbytes\<close> and then ends with the error \<open>serr\<close>, which is \<open>io_EOF\<close> at a
    regular end.
  \<^item> Read through \<^verbatim>\<open>multipart.NewReader(stream, boundary)\<close>: the calls of
    \<^verbatim>\<open>NextPart\<close> return the parts \<open>sparts\<close> one after the other and then the
    error \<open>send\<close>, which is \<open>io_EOF\<close> after the closing boundary.  The boundary is
    the one the source computes from the enclosing Content-Type, so the stream
    carries the outcome for that boundary.
  A \<^verbatim>\<open>multipart.Part\<close> is a header and a reader of its content.  As the library
  hands it out, a quoted-printable part is already decoded and its
  Content-Transfer-Encoding field removed.
\<close>

datatype stream = Stream (sbytes: string) (serr: error) (sparts: "mpart list") (send: error)
and mpart = MPart (Header: MIMEHeader) (Body: stream)

text \<open>
  \<^verbatim>\<open>mail.Message\<close>, and the reader given to \<^verbatim>\<open>ReadFrom\<close>, represented by the
  outcome of \<^verbatim>\<open>mail.ReadMessage\<close> on it.
\<close>

record mail_Message =
  msg_Header :: MIMEHeader
  msg_Body :: stream

datatype reader = Reader (mail_ReadMessage: "error + mail_Message")

text \<open>
  The bytes a reader delivers and the error that ends them.
\<close>

type_synonym byteReader = "string \<times> error"

definition Read :: "stream \<Rightarrow> byteReader" where
  "Read s = (sbytes s, serr s)"

text \<open>
  \<^verbatim>\<open>bytes.Buffer.ReadFrom\<close>: reads until the reader ends; \<^verbatim>\<open>io.EOF\<close> is the
  regular end and is not reported as an error.  The result is the content of the
  buffer and the error.
\<close>

definition Buffer_ReadFrom :: "byteReader \<Rightarrow> string \<times> error option" where
  "Buffer_ReadFrom rd = (fst rd, if snd rd = io_EOF then None else Some (snd rd))"

text \<open>
  The library functions that are parameters of the model, and the one constant of
  the repository whose value the sources at hand do not fix:
  \<^item> \<open>ParseMediaType\<close> is \<^verbatim>\<open>mime.ParseMediaType\<close>: an error, or the media type with
    its parameters;
  \<^item> \<open>base64_NewDecoder\<close> is \<^verbatim>\<open>base64.NewDecoder(base64.StdEncoding, _)\<close>: the reader
    of the decoded bytes of a reader, ending in an error on corrupt input;
  \<^item> \<open>Unencoded\<close> is the \<^verbatim>\<open>Encoding\<close> constant of that name, declared outside the
    two source files.  It is one string, whatever its value.
\<close>

record stdlib =
  ParseMediaType :: "string \<Rightarrow> error + (string \<times> (string \<rightharpoonup> string))"
  base64_NewDecoder :: "byteReader \<Rightarrow> byteReader"
  Unencoded :: string

text \<open>
  Modelled from the spec: the \<^verbatim>\<open>Encoding\<close> constants \<^verbatim>\<open>Base64\<close> and
  \<^verbatim>\<open>QuotedPrintable\<close>, declared outside the two source files.  The specification
  names their labels: "base64" and "quoted-printable".
\<close>

definition Base64 :: string where
  "Base64 = ''base64''"

definition QuotedPrintable :: string where
  "QuotedPrintable = ''quoted-printable''"

subsection \<open>Message, parts and files\<close>

text \<open>
  Modelled from the spec: the types \<^verbatim>\<open>Message\<close>, \<^verbatim>\<open>part\<close> and \<^verbatim>\<open>file\<close> (here \<open>gomail_file\<close>) and the
  helpers \<^verbatim>\<open>Reset\<close>, \<^verbatim>\<open>newPart\<close>, \<^verbatim>\<open>SetPartHeaders\<close>, \<^verbatim>\<open>SetPartEncoding\<close>,
  \<^verbatim>\<open>newReaderCopier\<close>, \<^verbatim>\<open>fileFromReader\<close>, \<^verbatim>\<open>SetHeader\<close> and \<^verbatim>\<open>appendFile\<close>
  are declared outside the two source files; only their calls are in
  \<^verbatim>\<open>readfrom.go\<close>.  From the data model of the specification: a Message owns a
  header mapping, a charset, a default transfer encoding and the sequences of
  parts, attachments and embedded files, and is reset to the empty state at the
  start of a parse; a Part has a media type, a header subset, a content and an
  explicit transfer encoding if one was set; a File has a name, the header set of
  its part and a content, and is appended at the end of its collection.
\<close>

record part =
  contentType :: string
  copier :: string
  partHeader :: MIMEHeader
  partEncoding :: "string option"

record gomail_file =
  Name :: string
  fileHeader :: MIMEHeader
  CopyFunc :: string

record Message =
  header :: MIMEHeader
  charset :: string
  encoding :: string
  parts :: "part list"
  attachments :: "gomail_file list"
  embedded :: "gomail_file list"

definition Reset :: "Message \<Rightarrow> Message" where
  "Reset m = m\<lparr>header := [], parts := [], attachments := [], embedded := []\<rparr>"

datatype PartSetting = SetPartHeaders MIMEHeader | SetPartEncoding string

fun applyPartSetting :: "PartSetting \<Rightarrow> part \<Rightarrow> part" where
  "applyPartSetting (SetPartHeaders h) p = p\<lparr>partHeader := h\<rparr>"
| "applyPartSetting (SetPartEncoding e) p = p\<lparr>partEncoding := Some e\<rparr>"

definition newReaderCopier :: "string \<Rightarrow> string" where
  "newReaderCopier body = body"

definition newPart :: "Message \<Rightarrow> string \<Rightarrow> string \<Rightarrow> PartSetting list \<Rightarrow> part" where
  "newPart m ct f settings =
     fold applyPartSetting settings
       \<lparr>contentType = ct, copier = f, partHeader = [], partEncoding = None\<rparr>"

datatype FileSetting = SetHeader MIMEHeader

fun applyFileSetting :: "FileSetting \<Rightarrow> gomail_file \<Rightarrow> gomail_file" where
  "applyFileSetting (SetHeader h) f = f\<lparr>fileHeader := h\<rparr>"

definition fileFromReader :: "string \<Rightarrow> string \<Rightarrow> gomail_file" where
  "fileFromReader name body = \<lparr>Name = name, fileHeader = [], CopyFunc = body\<rparr>"

definition appendFile :: "Message \<Rightarrow> gomail_file list \<Rightarrow> gomail_file \<Rightarrow> FileSetting list \<Rightarrow> gomail_file list" where
  "appendFile m list f settings = list @ [fold applyFileSetting settings f]"

subsection \<open>The message reader\<close>

text \<open>
  \<^verbatim>\<open>messageReader\<close>: the reader \<^verbatim>\<open>r\<close>, the counter \<^verbatim>\<open>n\<close> (an \<^verbatim>\<open>int64\<close>), the
  \<^verbatim>\<open>depth\<close> (a \<^verbatim>\<open>uint8\<close>) and the error \<^verbatim>\<open>err\<close> (\<open>None\<close> is \<^verbatim>\<open>nil\<close>).  The
  field \<^verbatim>\<open>partWriter\<close> is never read or written and is left out.  The methods
  of the source have a pointer receiver and a pointer to the Message; here they
  take both and return both.
\<close>

record messageReader =
  mr_r :: reader
  mr_n :: "64 word"
  mr_depth :: "8 word"
  mr_err :: "error option"

text \<open>
  \<^verbatim>\<open>readPartBody\<close> (lines 182 to 199).  The result is the reader with \<^verbatim>\<open>err\<close> set
  and the returned \<^verbatim>\<open>io.Reader\<close>: \<open>None\<close> for \<^verbatim>\<open>nil\<close>, the content of the buffer
  otherwise.
\<close>

definition readPartBody ::
  "stdlib \<Rightarrow> messageReader \<Rightarrow> mpart \<Rightarrow> string \<Rightarrow> messageReader \<times> string option" where
  "readPartBody lib r part enc =
     (let (body, e) =
        (if enc = Base64 then Buffer_ReadFrom (base64_NewDecoder lib (Read (Body part)))
         else if enc = Unencoded lib \<or> enc = QuotedPrintable \<or> enc = [] then
           Buffer_ReadFrom (Read (Body part))
         else ([], Some (UnknownPartEncoding enc)));
        r' = r\<lparr>mr_err := e\<rparr>
      in if mr_err r' \<noteq> None then (r', None) else (r', Some body))"

text \<open>
  The loop of lines 37 to 45 of \<^verbatim>\<open>readMessage\<close>, over the entries of
  \<^verbatim>\<open>msg.Header\<close>.
\<close>

fun copyHeaders :: "MIMEHeader \<Rightarrow> MIMEHeader \<Rightarrow> MIMEHeader" where
  "copyHeaders [] mh = mh"
| "copyHeaders ((hn, h) # rest) mh =
     (let hc = CanonicalMIMEHeaderKey hn
      in if hc = ''Content-Type'' \<or> hc = ''Mime-Version'' then copyHeaders rest mh
         else copyHeaders rest (AList.update hn h mh))"

text \<open>
  \<^verbatim>\<open>parseMultipart\<close> (lines 83 to 103), its loop over \<^verbatim>\<open>NextPart\<close>
  (\<open>nextPartLoop\<close>, on the parts still to come and the final error of the reader)
  and \<^verbatim>\<open>parsePart\<close> (lines 105 to 180).
\<close>

fun parseMultipart ::
  "stdlib \<Rightarrow> messageReader \<Rightarrow> Message \<Rightarrow> stream \<Rightarrow> string \<Rightarrow> string \<Rightarrow> messageReader \<times> Message"
and nextPartLoop ::
  "stdlib \<Rightarrow> messageReader \<Rightarrow> Message \<Rightarrow> mpart list \<Rightarrow> error \<Rightarrow> string \<Rightarrow> messageReader \<times> Message"
and parsePart ::
  "stdlib \<Rightarrow> messageReader \<Rightarrow> Message \<Rightarrow> mpart \<Rightarrow> string \<Rightarrow> messageReader \<times> Message"
where
  "parseMultipart lib r m (Stream bs be ps pe) mediaType boundary =
     nextPartLoop lib r m ps pe mediaType"
| "nextPartLoop lib r m [] pe mediaType =
     (if pe = io_EOF then (r\<lparr>mr_err := None\<rparr>, m) else (r\<lparr>mr_err := Some pe\<rparr>, m))"
| "nextPartLoop lib r m (p # ps) pe mediaType =
     (case parsePart lib (r\<lparr>mr_err := None\<rparr>) m p mediaType of
        (r1, m1) \<Rightarrow>
          if mr_err r1 \<noteq> None then (r1, m1)
          else nextPartLoop lib r1 m1 ps pe mediaType)"
| "parsePart lib r m (MPart hdr bdy) parentMediaType =
     (case ParseMediaType lib (Get hdr ''Content-Type'') of
        Inl e \<Rightarrow> (r\<lparr>mr_err := Some e\<rparr>, m)
      | Inr (mediaType, params) \<Rightarrow>
          if prefix ''multipart/'' mediaType then
            (let boundary = (case params ''boundary'' of Some pboundary \<Rightarrow> pboundary | None \<Rightarrow> [])
             in parseMultipart lib (r\<lparr>mr_err := None\<rparr>) m bdy mediaType boundary)
          else
            (case readPartBody lib (r\<lparr>mr_err := None\<rparr>) (MPart hdr bdy)
                    (Get hdr ''Content-Transfer-Encoding'') of
               (r1, None) \<Rightarrow> (r1, m)
             | (r1, Some body) \<Rightarrow>
                 if mr_err r1 \<noteq> None then (r1, m)
                 else if parentMediaType = ''multipart/alternative'' then
                   (let pencoding = Get hdr ''Content-Transfer-Encoding'';
                        ps = [SetPartHeaders hdr] @
                             (if pencoding \<noteq> [] then [SetPartEncoding pencoding] else [])
                    in (r1, m\<lparr>parts := parts m @ [newPart m mediaType (newReaderCopier body) ps]\<rparr>))
                 else
                   (let filename = (case params ''name'' of Some pname \<Rightarrow> pname | None \<Rightarrow> [])
                    in case ParseMediaType lib (Get hdr ''Content-Disposition'') of
                         Inl e \<Rightarrow> (r1\<lparr>mr_err := Some e\<rparr>, m)
                       | Inr (contentDisposition, dparams) \<Rightarrow>
                           (let r2 = r1\<lparr>mr_err := None\<rparr>;
                                filename' = (case dparams ''filename'' of
                                               Some pname \<Rightarrow> pname | None \<Rightarrow> filename)
                            in if TrimSpace filename' = [] then (r2\<lparr>mr_err := Some BlankFileName\<rparr>, m)
                               else
                                 (let fs = [SetHeader hdr]
                                  in if contentDisposition = ''inline'' then
                                       (r2, m\<lparr>embedded :=
                                          appendFile m (embedded m) (fileFromReader filename' body) fs\<rparr>)
                                     else
                                       (r2, m\<lparr>attachments :=
                                          appendFile m (attachments m) (fileFromReader filename' body) fs\<rparr>))))))"

text \<open>
  \<^verbatim>\<open>readMessage\<close> (lines 23 to 81).
\<close>

definition readMessage :: "stdlib \<Rightarrow> messageReader \<Rightarrow> Message \<Rightarrow> messageReader \<times> Message" where
  "readMessage lib r m =
     (let m0 = (Reset m)\<lparr>charset := ''UTF-8'', encoding := QuotedPrintable\<rparr>
      in case mail_ReadMessage (mr_r r) of
           Inl e \<Rightarrow> (r\<lparr>mr_err := Some e\<rparr>, m0)
         | Inr msg \<Rightarrow>
             (let m1 = m0\<lparr>header := copyHeaders (msg_Header msg) (header m0)\<rparr>
              in case ParseMediaType lib (Get (msg_Header msg) ''Content-Type'') of
                   Inl e \<Rightarrow> (r\<lparr>mr_err := Some e\<rparr>, m1)
                 | Inr (mediaType, params) \<Rightarrow>
                     (let m2 = (case params ''charset'' of
                                  Some cs \<Rightarrow> m1\<lparr>charset := cs\<rparr> | None \<Rightarrow> m1)
                      in if prefix ''multipart/'' mediaType then
                           (let boundary = (case params ''boundary'' of
                                              Some pboundary \<Rightarrow> pboundary | None \<Rightarrow> [])
                            in parseMultipart lib (r\<lparr>mr_err := None\<rparr>) m2 (msg_Body msg)
                                 mediaType boundary)
                         else
                           (let pencoding = Get (msg_Header msg) ''Content-Transfer-Encoding'';
                                ps = [SetPartHeaders
                                        (CopyOnlyHeaders (msg_Header msg)
                                           [''Content-Type'', ''Content-Transfer-Encoding''])] @
                                     (if pencoding \<noteq> [] then [SetPartEncoding pencoding] else [])
                            in (r\<lparr>mr_err := None\<rparr>,
                                m2\<lparr>parts := [newPart m2 mediaType
                                                (newReaderCopier (sbytes (msg_Body msg))) ps]\<rparr>)))))"

text \<open>
  \<^verbatim>\<open>ReadFrom\<close> (lines 16 to 21): a fresh \<^verbatim>\<open>messageReader\<close> on the reader, with
  the zero value in every other field; the results are \<^verbatim>\<open>mw.n\<close> and \<^verbatim>\<open>mw.err\<close>,
  and the Message as the call leaves it.
\<close>

definition ReadFrom :: "stdlib \<Rightarrow> Message \<Rightarrow> reader \<Rightarrow> (64 word \<times> error option) \<times> Message" where
  "ReadFrom lib m rd =
     (let mw = \<lparr>mr_r = rd, mr_n = 0, mr_depth = 0, mr_err = None\<rparr>
      in case readMessage lib mw m of (mw', m') \<Rightarrow> ((mr_n mw', mr_err mw'), m'))"

subsection \<open>Two parts of the source, named for the proofs\<close>

text \<open>
  The three branches of \<^verbatim>\<open>readPartBody\<close> without the reader: the content of the
  buffer and the error.
\<close>

definition partBody :: "stdlib \<Rightarrow> mpart \<Rightarrow> string \<Rightarrow> string \<times> error option" where
  "partBody lib part enc =
     (if enc = Base64 then Buffer_ReadFrom (base64_NewDecoder lib (Read (Body part)))
      else if enc = Unencoded lib \<or> enc = QuotedPrintable \<or> enc = [] then
        Buffer_ReadFrom (Read (Body part))
      else ([], Some (UnknownPartEncoding enc)))"

text \<open>
  The branch of \<^verbatim>\<open>parsePart\<close> for a part that is not a multipart (lines 125 to
  178), word for word; \<open>parsePart_unfold\<close> below is the equation that says so.
\<close>

definition leafPart ::
  "stdlib \<Rightarrow> messageReader \<Rightarrow> Message \<Rightarrow> MIMEHeader \<Rightarrow> stream \<Rightarrow> string \<Rightarrow> (string \<rightharpoonup> string)
     \<Rightarrow> string \<Rightarrow> messageReader \<times> Message" where
  "leafPart lib r m hdr bdy mediaType params parentMediaType =
     (case readPartBody lib (r\<lparr>mr_err := None\<rparr>) (MPart hdr bdy)
             (Get hdr ''Content-Transfer-Encoding'') of
        (r1, None) \<Rightarrow> (r1, m)
      | (r1, Some body) \<Rightarrow>
          if mr_err r1 \<noteq> None then (r1, m)
          else if parentMediaType = ''multipart/alternative'' then
            (let pencoding = Get hdr ''Content-Transfer-Encoding'';
                 ps = [SetPartHeaders hdr] @
                      (if pencoding \<noteq> [] then [SetPartEncoding pencoding] else [])
             in (r1, m\<lparr>parts := parts m @ [newPart m mediaType (newReaderCopier body) ps]\<rparr>))
          else
            (let filename = (case params ''name'' of Some pname \<Rightarrow> pname | None \<Rightarrow> [])
             in case ParseMediaType lib (Get hdr ''Content-Disposition'') of
                  Inl e \<Rightarrow> (r1\<lparr>mr_err := Some e\<rparr>, m)
                | Inr (contentDisposition, dparams) \<Rightarrow>
                    (let r2 = r1\<lparr>mr_err := None\<rparr>;
                         filename' = (case dparams ''filename'' of
                                        Some pname \<Rightarrow> pname | None \<Rightarrow> filename)
                     in if TrimSpace filename' = [] then (r2\<lparr>mr_err := Some BlankFileName\<rparr>, m)
                        else
                          (let fs = [SetHeader hdr]
                           in if contentDisposition = ''inline'' then
                                (r2, m\<lparr>embedded :=
                                   appendFile m (embedded m) (fileFromReader filename' body) fs\<rparr>)
                              else
                                (r2, m\<lparr>attachments :=
                                   appendFile m (attachments m) (fileFromReader filename' body) fs\<rparr>)))))"

subsection \<open>The walk as a list of filings\<close>

text \<open>
  What one leaf part comes to: an error, a Part, an embedded file or an attachment.
  \<open>leafFiling\<close> is the classification of the specification (decode the body; under
  multipart/alternative a Part; otherwise parse the disposition, resolve and check
  the file name, and file by the disposition); \<open>leafPart_filing\<close> below proves
  that the branch of \<^verbatim>\<open>parsePart\<close> computes it.
\<close>

datatype filing =
  Failed error | FiledPart part | FiledEmbedded gomail_file | FiledAttachment gomail_file

fun fileInto :: "Message \<Rightarrow> filing \<Rightarrow> Message" where
  "fileInto m (Failed e) = m"
| "fileInto m (FiledPart p) = m\<lparr>parts := parts m @ [p]\<rparr>"
| "fileInto m (FiledEmbedded f) = m\<lparr>embedded := embedded m @ [f]\<rparr>"
| "fileInto m (FiledAttachment f) = m\<lparr>attachments := attachments m @ [f]\<rparr>"

fun failure :: "filing \<Rightarrow> error option" where
  "failure (Failed e) = Some e"
| "failure (FiledPart p) = None"
| "failure (FiledEmbedded f) = None"
| "failure (FiledAttachment f) = None"

text \<open>
  The file name of lines 144 to 160: the "filename" parameter of the
  Content-Disposition if there is one, else the "name" parameter of the
  Content-Type, else the empty string.
\<close>

definition resolvedName :: "(string \<rightharpoonup> string) \<Rightarrow> (string \<rightharpoonup> string) \<Rightarrow> string" where
  "resolvedName params dparams =
     (case dparams ''filename'' of
        Some pname \<Rightarrow> pname
      | None \<Rightarrow> (case params ''name'' of Some pname \<Rightarrow> pname | None \<Rightarrow> []))"

definition leafFiling ::
  "stdlib \<Rightarrow> MIMEHeader \<Rightarrow> stream \<Rightarrow> string \<Rightarrow> (string \<rightharpoonup> string) \<Rightarrow> string \<Rightarrow> filing" where
  "leafFiling lib hdr bdy mediaType params parentMediaType =
     (case partBody lib (MPart hdr bdy) (Get hdr ''Content-Transfer-Encoding'') of
        (body, Some e) \<Rightarrow> Failed e
      | (body, None) \<Rightarrow>
          if parentMediaType = ''multipart/alternative'' then
            FiledPart \<lparr>contentType = mediaType, copier = body, partHeader = hdr,
                       partEncoding = (if Get hdr ''Content-Transfer-Encoding'' = [] then None
                                       else Some (Get hdr ''Content-Transfer-Encoding''))\<rparr>
          else
            (case ParseMediaType lib (Get hdr ''Content-Disposition'') of
               Inl e \<Rightarrow> Failed e
             | Inr (contentDisposition, dparams) \<Rightarrow>
                 if TrimSpace (resolvedName params dparams) = [] then Failed BlankFileName
                 else if contentDisposition = ''inline'' then
                   FiledEmbedded
                     \<lparr>Name = resolvedName params dparams, fileHeader = hdr, CopyFunc = body\<rparr>
                 else
                   FiledAttachment
                     \<lparr>Name = resolvedName params dparams, fileHeader = hdr, CopyFunc = body\<rparr>))"

text \<open>
  The filings of a multipart stream in the order of the stream, at every depth: the
  filing of each leaf part, a failure for a Content-Type that does not parse, and a
  failure for a part sequence that ends in an error other than \<^verbatim>\<open>io.EOF\<close>.
\<close>

fun filings_stream :: "stdlib \<Rightarrow> stream \<Rightarrow> string \<Rightarrow> filing list"
and filings_parts :: "stdlib \<Rightarrow> mpart list \<Rightarrow> error \<Rightarrow> string \<Rightarrow> filing list"
and filings_part :: "stdlib \<Rightarrow> mpart \<Rightarrow> string \<Rightarrow> filing list"
where
  "filings_stream lib (Stream bs be ps pe) mediaType = filings_parts lib ps pe mediaType"
| "filings_parts lib [] pe mediaType = (if pe = io_EOF then [] else [Failed pe])"
| "filings_parts lib (p # ps) pe mediaType =
     filings_part lib p mediaType @ filings_parts lib ps pe mediaType"
| "filings_part lib (MPart hdr bdy) parentMediaType =
     (case ParseMediaType lib (Get hdr ''Content-Type'') of
        Inl e \<Rightarrow> [Failed e]
      | Inr (mediaType, params) \<Rightarrow>
          if prefix ''multipart/'' mediaType then filings_stream lib bdy mediaType
          else [leafFiling lib hdr bdy mediaType params parentMediaType])"

text \<open>
  The specification's reading of the walk: the filings are entered into the Message
  one after the other, and the first failure ends the walk with its error.
\<close>

fun runFilings :: "messageReader \<Rightarrow> Message \<Rightarrow> filing list \<Rightarrow> messageReader \<times> Message" where
  "runFilings r m [] = (r\<lparr>mr_err := None\<rparr>, m)"
| "runFilings r m (f # fs) =
     (case failure f of
        Some e \<Rightarrow> (r\<lparr>mr_err := Some e\<rparr>, m)
      | None \<Rightarrow> runFilings r (fileInto m f) fs)"

text \<open>
  The filings that are entered (those before the first failure), the error of the
  first failure, and the Parts, embedded files and attachments of a list of filings,
  in the order of the list.
\<close>

definition filed :: "filing list \<Rightarrow> filing list" where
  "filed fs = takeWhile (\<lambda>f. failure f = None) fs"

definition firstFailure :: "filing list \<Rightarrow> error option" where
  "firstFailure fs =
     (case dropWhile (\<lambda>f. failure f = None) fs of [] \<Rightarrow> None | f # _ \<Rightarrow> failure f)"

fun partsOf :: "filing list \<Rightarrow> part list" where
  "partsOf [] = []"
| "partsOf (FiledPart p # fs) = p # partsOf fs"
| "partsOf (_ # fs) = partsOf fs"

fun embeddedOf :: "filing list \<Rightarrow> gomail_file list" where
  "embeddedOf [] = []"
| "embeddedOf (FiledEmbedded f # fs) = f # embeddedOf fs"
| "embeddedOf (_ # fs) = embeddedOf fs"

fun attachmentsOf :: "filing list \<Rightarrow> gomail_file list" where
  "attachmentsOf [] = []"
| "attachmentsOf (FiledAttachment f # fs) = f # attachmentsOf fs"
| "attachmentsOf (_ # fs) = attachmentsOf fs"

subsection \<open>A library and messages to run the reader on\<close>

text \<open>
  An excerpt of the standard library, enough to run the examples: what
  \<^verbatim>\<open>mime.ParseMediaType\<close> returns on the header values that the examples use (the
  empty value is rejected with "mime: no media type"), what the base64 decoder
  returns on two inputs, and "8bit" for \<^verbatim>\<open>Unencoded\<close>.  No example reads a value
  outside the excerpt.
\<close>

definition example_ParseMediaType :: "string \<Rightarrow> error + (string \<times> (string \<rightharpoonup> string))" where
  "example_ParseMediaType v =
     (case map_of
        [([], Inl (LibraryError ''mime: no media type'')),
         (''text/plain'', Inr (''text/plain'', Map.empty)),
         (''text/plain; charset=us-ascii'', Inr (''text/plain'', [''charset'' \<mapsto> ''us-ascii''])),
         (''text/html; charset=iso-8859-1'', Inr (''text/html'', [''charset'' \<mapsto> ''iso-8859-1''])),
         (''multipart/mixed; boundary=b1'', Inr (''multipart/mixed'', [''boundary'' \<mapsto> ''b1''])),
         (''multipart/alternative; boundary=b2'',
            Inr (''multipart/alternative'', [''boundary'' \<mapsto> ''b2''])),
         (''application/pdf'', Inr (''application/pdf'', Map.empty)),
         (''application/pdf; name=a.pdf'', Inr (''application/pdf'', [''name'' \<mapsto> ''a.pdf''])),
         (''image/png; name=n.png'', Inr (''image/png'', [''name'' \<mapsto> ''n.png''])),
         (''attachment'', Inr (''attachment'', Map.empty)),
         (''attachment; filename=y.pdf'', Inr (''attachment'', [''filename'' \<mapsto> ''y.pdf''])),
         (''inline; filename=x.png'', Inr (''inline'', [''filename'' \<mapsto> ''x.png'']))] v of
        Some res \<Rightarrow> res
      | None \<Rightarrow> Inl (LibraryError ''outside the excerpt''))"

definition example_NewDecoder :: "byteReader \<Rightarrow> byteReader" where
  "example_NewDecoder rd =
     (if fst rd = ''aGk='' then (''hi'', snd rd)
      else if fst rd = [] then ([], snd rd)
      else ([], LibraryError ''illegal base64 data''))"

definition example_lib :: stdlib where
  "example_lib =
     \<lparr>ParseMediaType = example_ParseMediaType,
      base64_NewDecoder = example_NewDecoder,
      Unencoded = ''8bit''\<rparr>"

text \<open>A Message as \<^verbatim>\<open>NewMessage\<close> leaves it, and a fresh message reader.\<close>

definition example_Message :: Message where
  "example_Message =
     \<lparr>header = [], charset = ''UTF-8'', encoding = ''quoted-printable'',
      parts = [], attachments = [], embedded = []\<rparr>"

definition example_messageReader :: messageReader where
  "example_messageReader = \<lparr>mr_r = Reader (Inl io_EOF), mr_n = 0, mr_depth = 0, mr_err = None\<rparr>"

text \<open>A stream read as bytes only, and a stream read as a multipart only.\<close>

definition bytesStream :: "string \<Rightarrow> stream" where
  "bytesStream bs = Stream bs io_EOF [] (LibraryError ''multipart: NextPart: EOF'')"

definition partsStream :: "mpart list \<Rightarrow> stream" where
  "partsStream ps = Stream [] io_EOF ps io_EOF"

text \<open>
  A single-part message:
  \<^verbatim>\<open>Subject: Hi / Mime-Version: 1.0 / Content-Type: text/plain; charset=us-ascii /
  Content-Transfer-Encoding: 8bit / (blank line) / hello\<close>.
\<close>

definition example_single :: reader where
  "example_single =
     Reader (Inr \<lparr>msg_Header =
                    [(''Subject'', [''Hi'']),
                     (''Mime-Version'', [''1.0'']),
                     (''Content-Type'', [''text/plain; charset=us-ascii'']),
                     (''Content-Transfer-Encoding'', [''8bit''])],
                  msg_Body = bytesStream ''hello''\<rparr>)"

text \<open>The parts used in the multipart examples.\<close>

definition part_plain :: mpart where
  "part_plain = MPart [(''Content-Type'', [''text/plain; charset=us-ascii''])] (bytesStream ''hello'')"

definition part_html :: mpart where
  "part_html =
     MPart [(''Content-Type'', [''text/html; charset=iso-8859-1'']),
            (''Content-Transfer-Encoding'', [''base64''])] (bytesStream ''aGk='')"

definition part_inline_png :: mpart where
  "part_inline_png =
     MPart [(''Content-Type'', [''image/png; name=n.png'']),
            (''Content-Disposition'', [''inline; filename=x.png''])] (bytesStream ''PNG'')"

definition part_attached_pdf :: mpart where
  "part_attached_pdf =
     MPart [(''Content-Type'', [''application/pdf; name=a.pdf'']),
            (''Content-Disposition'', [''attachment; filename=y.pdf''])] (bytesStream ''PDF'')"

definition part_name_only :: mpart where
  "part_name_only =
     MPart [(''Content-Type'', [''application/pdf; name=a.pdf'']),
            (''Content-Disposition'', [''attachment''])] (bytesStream ''PDF'')"

definition part_no_disposition :: mpart where
  "part_no_disposition =
     MPart [(''Content-Type'', [''application/pdf; name=a.pdf''])] (bytesStream ''PDF'')"

definition part_no_name :: mpart where
  "part_no_name =
     MPart [(''Content-Type'', [''application/pdf'']),
            (''Content-Disposition'', [''attachment''])] (bytesStream ''PDF'')"

definition part_png_no_disposition :: mpart where
  "part_png_no_disposition =
     MPart [(''Content-Type'', [''image/png; name=n.png''])] (bytesStream ''PNG'')"

definition part_bare :: mpart where
  "part_bare = MPart [(''Content-Type'', [''application/pdf''])] (bytesStream ''PDF'')"

definition part_7bit :: mpart where
  "part_7bit =
     MPart [(''Content-Type'', [''text/plain'']),
            (''Content-Transfer-Encoding'', [''7bit''])] (bytesStream ''hello'')"

definition part_alternative :: mpart where
  "part_alternative =
     MPart [(''Content-Type'', [''multipart/alternative; boundary=b2''])]
           (partsStream [part_plain, part_html])"

definition part_alternative_7bit :: mpart where
  "part_alternative_7bit =
     MPart [(''Content-Type'', [''multipart/alternative; boundary=b2''])]
           (partsStream [part_plain, part_7bit])"

text \<open>A multipart/mixed message with the given parts.\<close>

definition example_mixed :: "mpart list \<Rightarrow> reader" where
  "example_mixed ps =
     Reader (Inr \<lparr>msg_Header =
                    [(''Subject'', [''Hi'']),
                     (''Mime-Version'', [''1.0'']),
                     (''Content-Type'', [''multipart/mixed; boundary=b1''])],
                  msg_Body = partsStream ps\<rparr>)"

section \<open>Properties\<close>

subsection \<open>Unfolding the source\<close>

lemma parsePart_unfold:
  "parsePart lib r m (MPart hdr bdy) parentMediaType =
     (case ParseMediaType lib (Get hdr ''Content-Type'') of
        Inl e \<Rightarrow> (r\<lparr>mr_err := Some e\<rparr>, m)
      | Inr (mediaType, params) \<Rightarrow>
          if prefix ''multipart/'' mediaType then
            parseMultipart lib (r\<lparr>mr_err := None\<rparr>) m bdy mediaType
              (case params ''boundary'' of Some pboundary \<Rightarrow> pboundary | None \<Rightarrow> [])
          else leafPart lib r m hdr bdy mediaType params parentMediaType)"
  by (simp add: leafPart_def split: sum.splits prod.splits)

declare parsePart.simps [simp del]

lemma readPartBody_eq:
  "readPartBody lib r p enc =
     (case snd (partBody lib p enc) of
        Some e \<Rightarrow> (r\<lparr>mr_err := Some e\<rparr>, None)
      | None \<Rightarrow> (r\<lparr>mr_err := None\<rparr>, Some (fst (partBody lib p enc))))"
  by (simp add: readPartBody_def partBody_def Let_def split: prod.splits option.splits)

text \<open>
  Induction along the walk: one case for each equation of the three functions, with
  the hypotheses for the calls that the equation makes.
\<close>

lemma walk_induct [case_names Stream Nil Cons Part]:
  assumes "\<And>lib r m bs be ps pe mt b. Q lib r m ps pe mt \<Longrightarrow> P lib r m (Stream bs be ps pe) mt b"
    and "\<And>lib r m pe mt. Q lib r m [] pe mt"
    and "\<And>lib r m p ps pe mt.
           R lib (r\<lparr>mr_err := None\<rparr>) m p mt \<Longrightarrow>
           (\<And>r1 m1. parsePart lib (r\<lparr>mr_err := None\<rparr>) m p mt = (r1, m1) \<Longrightarrow>
                     mr_err r1 = None \<Longrightarrow> Q lib r1 m1 ps pe mt) \<Longrightarrow>
           Q lib r m (p # ps) pe mt"
    and "\<And>lib r m hdr bdy pmt.
           (\<And>mt params.
              ParseMediaType lib (Get hdr ''Content-Type'') = Inr (mt, params) \<Longrightarrow>
              prefix ''multipart/'' mt \<Longrightarrow>
              P lib (r\<lparr>mr_err := None\<rparr>) m bdy mt
                (case params ''boundary'' of Some pboundary \<Rightarrow> pboundary | None \<Rightarrow> [])) \<Longrightarrow>
           R lib r m (MPart hdr bdy) pmt"
  shows "P lib r m s mt b" and "Q lib r m ps pe mt" and "R lib r m p pmt"
proof (induction lib r m s mt b and lib r m ps pe mt and lib r m p pmt
       rule: parseMultipart_nextPartLoop_parsePart.induct)
  case (1 lib r m bs be ps pe mediaType boundary)
  then show ?case by (rule assms(1))
next
  case (2 lib r m pe mediaType)
  show ?case by (rule assms(2))
next
  case (3 lib r m p ps pe mediaType)
  show ?case
  proof (rule assms(3))
    show "R lib (r\<lparr>mr_err := None\<rparr>) m p mediaType" by (rule "3.IH"(1))
  next
    fix r1 m1
    assume "parsePart lib (r\<lparr>mr_err := None\<rparr>) m p mediaType = (r1, m1)" and "mr_err r1 = None"
    then show "Q lib r1 m1 ps pe mediaType"
      using "3.IH"(2) [of r1 m1] by simp
  qed
next
  case (4 lib r m hdr bdy parentMediaType)
  show ?case
  proof (rule assms(4))
    fix mt params
    assume "ParseMediaType lib (Get hdr ''Content-Type'') = Inr (mt, params)"
      and "prefix ''multipart/'' mt"
    then show "P lib (r\<lparr>mr_err := None\<rparr>) m bdy mt
                (case params ''boundary'' of Some pboundary \<Rightarrow> pboundary | None \<Rightarrow> [])"
      using "4.IH" [of "(mt, params)" mt params] by simp
  qed
qed

subsection \<open>The walk enters the filings in order and stops at the first failure\<close>

lemma leafPart_filing:
  "leafPart lib r m hdr bdy mt params pmt =
     (r\<lparr>mr_err := failure (leafFiling lib hdr bdy mt params pmt)\<rparr>,
      fileInto m (leafFiling lib hdr bdy mt params pmt))"
proof (cases "partBody lib (MPart hdr bdy) (Get hdr ''Content-Transfer-Encoding'')")
  case (Pair body eo)
  show ?thesis
  proof (cases eo)
    case (Some e)
    with Pair show ?thesis by (simp add: leafPart_def leafFiling_def readPartBody_eq)
  next
    case None
    note body = Pair [unfolded None]
    show ?thesis
    proof (cases "pmt = ''multipart/alternative''")
      case True
      with body show ?thesis
        by (simp add: leafPart_def leafFiling_def readPartBody_eq newPart_def newReaderCopier_def)
    next
      case False
      show ?thesis
      proof (cases "ParseMediaType lib (Get hdr ''Content-Disposition'')")
        case (Inl e)
        with body False show ?thesis by (simp add: leafPart_def leafFiling_def readPartBody_eq)
      next
        case (Inr res)
        obtain cd dparams where res: "res = (cd, dparams)" by (cases res)
        have name: "(case dparams ''filename'' of None \<Rightarrow> (case params ''name'' of None \<Rightarrow> [] | Some pname \<Rightarrow> pname)
                     | Some pname \<Rightarrow> pname) = resolvedName params dparams"
          by (simp add: resolvedName_def)
        from body False Inr res show ?thesis
          by (simp add: leafPart_def leafFiling_def readPartBody_eq Let_def name appendFile_def
                fileFromReader_def)
      qed
    qed
  qed
qed

declare filings_part.simps [simp del]

lemma filings_part_unfold:
  "filings_part lib (MPart hdr bdy) parentMediaType =
     (case ParseMediaType lib (Get hdr ''Content-Type'') of
        Inl e \<Rightarrow> [Failed e]
      | Inr (mediaType, params) \<Rightarrow>
          if prefix ''multipart/'' mediaType then filings_stream lib bdy mediaType
          else [leafFiling lib hdr bdy mediaType params parentMediaType])"
  by (simp add: filings_part.simps)

lemma failure_fileInto: "failure f = Some e \<Longrightarrow> fileInto m f = m"
  by (cases f) simp_all

lemma runFilings_err_in: "runFilings (r\<lparr>mr_err := x\<rparr>) m fs = runFilings r m fs"
  by (induction fs arbitrary: m) (simp_all split: option.splits)

lemma runFilings_reader:
  "fst (runFilings r m fs) = r\<lparr>mr_err := mr_err (fst (runFilings r m fs))\<rparr>"
  by (induction fs arbitrary: m) (simp_all split: option.splits)

lemma runFilings_append:
  "runFilings r m (fs @ gs) =
     (case mr_err (fst (runFilings r m fs)) of
        Some e \<Rightarrow> runFilings r m fs
      | None \<Rightarrow> runFilings r (snd (runFilings r m fs)) gs)"
proof (induction fs arbitrary: m)
  case Nil
  show ?case by (simp add: runFilings_err_in)
next
  case (Cons f fs)
  show ?case
  proof (cases "failure f")
    case None
    then show ?thesis using Cons [of "fileInto m f"] by (simp split: option.splits)
  next
    case (Some e)
    then show ?thesis by simp
  qed
qed

lemma walk_filings:
  "parseMultipart lib r m s mt b = runFilings r m (filings_stream lib s mt)"
  "nextPartLoop lib r m ps pe mt = runFilings r m (filings_parts lib ps pe mt)"
  "parsePart lib r m p pmt = runFilings r m (filings_part lib p pmt)"
proof (induction lib r m s mt b and lib r m ps pe mt and lib r m p pmt rule: walk_induct)
  case (Stream lib r m bs be ps pe mt b)
  then show ?case by simp
next
  case (Nil lib r m pe mt)
  show ?case by simp
next
  case (Cons lib r m p ps pe mt)
  let ?fp = "filings_part lib p mt"
  have pp: "parsePart lib (r\<lparr>mr_err := None\<rparr>) m p mt = runFilings r m ?fp"
    using Cons(1) by (simp add: runFilings_err_in)
  show ?case
  proof (cases "mr_err (fst (runFilings r m ?fp))")
    case None
    have "nextPartLoop lib (fst (runFilings r m ?fp)) (snd (runFilings r m ?fp)) ps pe mt =
            runFilings (fst (runFilings r m ?fp)) (snd (runFilings r m ?fp)) (filings_parts lib ps pe mt)"
      by (rule Cons(2)) (simp_all add: pp None)
    also have "\<dots> = runFilings r (snd (runFilings r m ?fp)) (filings_parts lib ps pe mt)"
      by (subst runFilings_reader) (simp add: runFilings_err_in)
    finally show ?thesis using None pp by (simp add: runFilings_append case_prod_beta)
  next
    case (Some e)
    then show ?thesis using pp by (simp add: runFilings_append case_prod_beta)
  qed
next
  case (Part lib r m hdr bdy pmt)
  show ?case
  proof (cases "ParseMediaType lib (Get hdr ''Content-Type'')")
    case (Inl e)
    then show ?thesis by (simp add: parsePart_unfold filings_part_unfold)
  next
    case (Inr res)
    obtain mt params where res: "res = (mt, params)" by (cases res)
    show ?thesis
    proof (cases "prefix ''multipart/'' mt")
      case True
      with Inr res Part [of mt params] show ?thesis
        by (simp add: parsePart_unfold filings_part_unfold runFilings_err_in)
    next
      case False
      with Inr res show ?thesis
        by (simp add: parsePart_unfold filings_part_unfold leafPart_filing failure_fileInto
              split: option.splits)
    qed
  qed
qed

lemma runFilings_eq:
  "runFilings r m fs =
     (r\<lparr>mr_err := firstFailure fs\<rparr>,
      m\<lparr>parts := parts m @ partsOf (filed fs),
        attachments := attachments m @ attachmentsOf (filed fs),
        embedded := embedded m @ embeddedOf (filed fs)\<rparr>)"
proof (induction fs arbitrary: m)
  case Nil
  show ?case by (simp add: filed_def firstFailure_def)
next
  case (Cons f fs)
  show ?case
  proof (cases f)
    case (Failed e)
    then show ?thesis by (simp add: filed_def firstFailure_def)
  next
    case (FiledPart p)
    then show ?thesis using Cons [of "fileInto m f"] by (simp add: filed_def firstFailure_def)
  next
    case (FiledEmbedded g)
    then show ?thesis using Cons [of "fileInto m f"] by (simp add: filed_def firstFailure_def)
  next
    case (FiledAttachment g)
    then show ?thesis using Cons [of "fileInto m f"] by (simp add: filed_def firstFailure_def)
  qed
qed

subsection \<open>The reader is changed in its error only\<close>

lemma parseMultipart_reader:
  "fst (parseMultipart lib r m s mt b) = r\<lparr>mr_err := mr_err (fst (parseMultipart lib r m s mt b))\<rparr>"
  unfolding walk_filings by (rule runFilings_reader)

lemma readMessage_reader:
  "fst (readMessage lib r m) = r\<lparr>mr_err := mr_err (fst (readMessage lib r m))\<rparr>"
proof (cases "mail_ReadMessage (mr_r r)")
  case (Inl e)
  then show ?thesis by (simp add: readMessage_def)
next
  case (Inr msg)
  show ?thesis
  proof (cases "ParseMediaType lib (Get (msg_Header msg) ''Content-Type'')")
    case (Inl e)
    with Inr show ?thesis by (simp add: readMessage_def)
  next
    case inr: (Inr res)
    obtain mt params where res: "res = (mt, params)" by (cases res)
    show ?thesis
    proof (cases "prefix ''multipart/'' mt")
      case True
      with Inr inr res show ?thesis
        using parseMultipart_reader [of lib "r\<lparr>mr_err := None\<rparr>"]
        by (simp add: readMessage_def Let_def)
    next
      case False
      with Inr inr res show ?thesis by (simp add: readMessage_def Let_def)
    qed
  qed
qed

subsection \<open>Header keys\<close>

lemmas canonical_defs =
  CanonicalMIMEHeaderKey_def validHeaderFieldByte_def isLower_def isUpper_def isDigit_def
  toUpper_def toLower_def Let_def

lemma canonical_known [simp]:
  "CanonicalMIMEHeaderKey ''Content-Type'' = ''Content-Type''"
  "CanonicalMIMEHeaderKey ''Mime-Version'' = ''Mime-Version''"
  "CanonicalMIMEHeaderKey ''Content-Transfer-Encoding'' = ''Content-Transfer-Encoding''"
  "CanonicalMIMEHeaderKey ''Content-Disposition'' = ''Content-Disposition''"
  by (simp_all add: canonical_defs)

lemma Get_absent: "map_of h (CanonicalMIMEHeaderKey key) = None \<Longrightarrow> Get h key = []"
  by (simp add: Get_def)

subsection \<open>The body decoder and the leaf part\<close>

text \<open>
  The value chosen for \<^verbatim>\<open>Unencoded\<close> does not matter: the source compares the label
  with one constant, so of "7bit" and "binary" at least one is an unknown encoding.
\<close>

lemma readPartBody_7bit_or_binary:
  "readPartBody lib r p ''7bit'' = (r\<lparr>mr_err := Some (UnknownPartEncoding ''7bit'')\<rparr>, None) \<or>
   readPartBody lib r p ''binary'' = (r\<lparr>mr_err := Some (UnknownPartEncoding ''binary'')\<rparr>, None)"
  by (cases "Unencoded lib = ''7bit''")
     (simp_all add: readPartBody_def Base64_def QuotedPrintable_def Let_def)

lemma parsePart_leaf:
  assumes "ParseMediaType lib (Get hdr ''Content-Type'') = Inr (mt, params)"
    and "\<not> prefix ''multipart/'' mt"
  shows "parsePart lib r m (MPart hdr bdy) pmt =
           (r\<lparr>mr_err := failure (leafFiling lib hdr bdy mt params pmt)\<rparr>,
            fileInto m (leafFiling lib hdr bdy mt params pmt))"
  using assms by (simp add: parsePart_unfold leafPart_filing)

text \<open>
  A leaf part classified as a file that has no Content-Disposition header: the source
  parses the empty value as the disposition.  When the media-type parser rejects the
  empty value, the part fails and the Message is unchanged; the error is the one of
  the body decoder if the body does not decode (lines 126 to 129 come first), and the
  one of the parser otherwise (lines 152 to 155).
\<close>

lemma parsePart_absent_disposition:
  assumes "ParseMediaType lib (Get hdr ''Content-Type'') = Inr (mt, params)"
    and "\<not> prefix ''multipart/'' mt"
    and "pmt \<noteq> ''multipart/alternative''"
    and "map_of hdr ''Content-Disposition'' = None"
    and "ParseMediaType lib [] = Inl e"
  shows "parsePart lib r m (MPart hdr bdy) pmt =
           (r\<lparr>mr_err := Some (case snd (partBody lib (MPart hdr bdy)
                                           (Get hdr ''Content-Transfer-Encoding'')) of
                                 Some e' \<Rightarrow> e' | None \<Rightarrow> e)\<rparr>, m)"
proof -
  from assms(4) have g: "Get hdr ''Content-Disposition'' = []" by (simp add: Get_absent)
  obtain body eo where
    pb: "partBody lib (MPart hdr bdy) (Get hdr ''Content-Transfer-Encoding'') = (body, eo)"
    by (cases "partBody lib (MPart hdr bdy) (Get hdr ''Content-Transfer-Encoding'')")
  have "leafFiling lib hdr bdy mt params pmt =
          Failed (case eo of Some e' \<Rightarrow> e' | None \<Rightarrow> e)"
    unfolding leafFiling_def pb using assms(3,5) g by (cases eo) simp_all
  with assms(1,2) pb show ?thesis by (simp add: parsePart_leaf)
qed

subsection \<open>What the walk leaves alone\<close>

lemma fileInto_frame [simp]:
  "header (fileInto m f) = header m"
  "charset (fileInto m f) = charset m"
  "encoding (fileInto m f) = encoding m"
  by (cases f; simp)+

lemma runFilings_frame:
  "header (snd (runFilings r m fs)) = header m"
  "charset (snd (runFilings r m fs)) = charset m"
  "encoding (snd (runFilings r m fs)) = encoding m"
  by (induction fs arbitrary: m; simp split: option.splits)+

lemma parseMultipart_frame:
  "header (snd (parseMultipart lib r m s mt b)) = header m"
  "charset (snd (parseMultipart lib r m s mt b)) = charset m"
  "encoding (snd (parseMultipart lib r m s mt b)) = encoding m"
  by (simp_all add: walk_filings runFilings_frame)

subsection \<open>The copy of the envelope header\<close>

lemma copyHeaders_reserved:
  "CanonicalMIMEHeaderKey k = ''Content-Type'' \<or> CanonicalMIMEHeaderKey k = ''Mime-Version'' \<Longrightarrow>
   map_of (copyHeaders hs mh) k = map_of mh k"
proof (induction hs arbitrary: mh)
  case Nil
  show ?case by simp
next
  case (Cons a hs)
  obtain hn h where a: "a = (hn, h)" by (cases a)
  show ?case
  proof (cases "CanonicalMIMEHeaderKey hn = ''Content-Type'' \<or> CanonicalMIMEHeaderKey hn = ''Mime-Version''")
    case True
    then show ?thesis using Cons a by (simp add: Let_def)
  next
    case False
    with Cons.prems have "hn \<noteq> k" by auto
    with False show ?thesis using Cons a by (simp add: Let_def update_conv')
  qed
qed

lemma copyHeaders_other:
  "distinct (map fst hs) \<Longrightarrow>
   \<not> (CanonicalMIMEHeaderKey k = ''Content-Type'' \<or> CanonicalMIMEHeaderKey k = ''Mime-Version'') \<Longrightarrow>
   map_of (copyHeaders hs mh) k = (case map_of hs k of Some v \<Rightarrow> Some v | None \<Rightarrow> map_of mh k)"
proof (induction hs arbitrary: mh)
  case Nil
  show ?case by simp
next
  case (Cons a hs)
  obtain hn h where a: "a = (hn, h)" by (cases a)
  from Cons.prems a have d: "distinct (map fst hs)" and nin: "hn \<notin> fst ` set hs" by auto
  show ?case
  proof (cases "hn = k")
    case True
    from nin True have "map_of hs k = None" by (simp add: map_of_eq_None_iff)
    with True Cons.prems(2) Cons.IH [OF d Cons.prems(2)] a show ?thesis
      by (simp add: Let_def update_conv' split: option.splits)
  next
    case False
    show ?thesis
    proof (cases "CanonicalMIMEHeaderKey hn = ''Content-Type'' \<or> CanonicalMIMEHeaderKey hn = ''Mime-Version''")
      case True
      with False Cons.IH [OF d Cons.prems(2)] a show ?thesis by (simp add: Let_def)
    next
      case c: False
      with False Cons.IH [OF d Cons.prems(2)] a show ?thesis
        by (simp add: Let_def update_conv' split: option.splits)
    qed
  qed
qed

lemma readMessage_header:
  "header (snd (readMessage lib r m)) =
     (case mail_ReadMessage (mr_r r) of
        Inl e \<Rightarrow> []
      | Inr msg \<Rightarrow> copyHeaders (msg_Header msg) [])"
  by (simp add: readMessage_def Reset_def Let_def parseMultipart_frame
        split: sum.splits prod.splits option.splits)

lemma ReadFrom_snd: "snd (ReadFrom lib m rd) =
   snd (readMessage lib \<lparr>mr_r = rd, mr_n = 0, mr_depth = 0, mr_err = None\<rparr> m)"
  by (simp add: ReadFrom_def Let_def case_prod_beta)

lemma CopyOnlyHeaders_loop_map_of:
  "map_of (CopyOnlyHeaders_loop h list newh) k =
     (if k \<in> set list then (case map_of h k of Some v \<Rightarrow> Some v | None \<Rightarrow> map_of newh k)
      else map_of newh k)"
  by (induction list arbitrary: newh) (auto simp add: update_conv' split: option.splits)

lemma CopyOnlyHeaders_map_of:
  "map_of (CopyOnlyHeaders h list) k = (if k \<in> set list then map_of h k else None)"
  by (simp add: CopyOnlyHeaders_def CopyOnlyHeaders_loop_map_of split: option.splits)

lemma Get_present: "Get h key \<noteq> [] \<Longrightarrow> map_of h (CanonicalMIMEHeaderKey key) \<noteq> None"
  by (simp add: Get_def split: option.splits)

lemmas example_eval =
  example_lib_def example_ParseMediaType_def example_NewDecoder_def Get_def partBody_def
  Base64_def QuotedPrintable_def Buffer_ReadFrom_def Read_def bytesStream_def

subsection \<open>The first failure\<close>

lemma firstFailure_None_iff: "firstFailure fs = None \<longleftrightarrow> (\<forall>f \<in> set fs. failure f = None)"
  by (induction fs) (auto simp add: firstFailure_def)

lemma filed_append_Failed:
  assumes "firstFailure fs1 = None"
  shows "filed (fs1 @ Failed e # fs2) = fs1"
proof -
  from assms have "\<And>f. f \<in> set fs1 \<Longrightarrow> failure f = None" by (simp add: firstFailure_None_iff)
  then have "takeWhile (\<lambda>f. failure f = None) (fs1 @ Failed e # fs2) =
               fs1 @ takeWhile (\<lambda>f. failure f = None) (Failed e # fs2)"
    by (rule takeWhile_append2)
  then show ?thesis by (simp add: filed_def)
qed

lemma firstFailure_append_Failed:
  assumes "firstFailure fs1 = None"
  shows "firstFailure (fs1 @ Failed e # fs2) = Some e"
proof -
  from assms have "\<And>f. f \<in> set fs1 \<Longrightarrow> failure f = None" by (simp add: firstFailure_None_iff)
  then have "dropWhile (\<lambda>f. failure f = None) (fs1 @ Failed e # fs2) =
               dropWhile (\<lambda>f. failure f = None) (Failed e # fs2)"
    by (rule dropWhile_append2)
  then show ?thesis by (simp add: firstFailure_def)
qed

lemma filings_parts_append:
  "filings_parts lib (ps1 @ ps2) pe mt = filings_parts lib ps1 io_EOF mt @ filings_parts lib ps2 pe mt"
  by (induction ps1) simp_all

lemma parseMultipart_eq:
  "parseMultipart lib r m s mt b =
     (r\<lparr>mr_err := firstFailure (filings_stream lib s mt)\<rparr>,
      m\<lparr>parts := parts m @ partsOf (filed (filings_stream lib s mt)),
        attachments := attachments m @ attachmentsOf (filed (filings_stream lib s mt)),
        embedded := embedded m @ embeddedOf (filed (filings_stream lib s mt))\<rparr>)"
  by (simp add: walk_filings runFilings_eq)

lemma nextPartLoop_first_error:
  assumes "mr_err (fst (nextPartLoop lib r m ps1 io_EOF mt)) = None"
    and "mr_err (fst (parsePart lib r (snd (nextPartLoop lib r m ps1 io_EOF mt)) p mt)) = Some e"
  shows "nextPartLoop lib r m (ps1 @ p # ps2) pe mt =
           parsePart lib r (snd (nextPartLoop lib r m ps1 io_EOF mt)) p mt"
proof -
  let ?A = "filings_parts lib ps1 io_EOF mt"
  let ?B = "filings_part lib p mt"
  let ?C = "filings_parts lib ps2 pe mt"
  have "nextPartLoop lib r m (ps1 @ p # ps2) pe mt = runFilings r m (?A @ ?B @ ?C)"
    by (simp add: walk_filings filings_parts_append)
  also have "\<dots> = runFilings r (snd (runFilings r m ?A)) (?B @ ?C)"
    using assms(1) by (simp add: walk_filings runFilings_append)
  also have "\<dots> = runFilings r (snd (runFilings r m ?A)) ?B"
    using assms(2) by (simp add: walk_filings runFilings_append)
  finally show ?thesis by (simp add: walk_filings)
qed

lemma parsePart_nested:
  assumes "ParseMediaType lib (Get hdr ''Content-Type'') = Inr (mt, params)"
    and "prefix ''multipart/'' mt"
  shows "parsePart lib r m (MPart hdr bdy) pmt =
           parseMultipart lib r m bdy mt
             (case params ''boundary'' of Some pboundary \<Rightarrow> pboundary | None \<Rightarrow> [])"
  using assms by (simp add: parsePart_unfold runFilings_err_in walk_filings(1))

lemma ReadFrom_multipart:
  assumes "mail_ReadMessage rd = Inr msg"
    and "ParseMediaType lib (Get (msg_Header msg) ''Content-Type'') = Inr (mt, params)"
    and "prefix ''multipart/'' mt"
  shows "ReadFrom lib m rd =
           ((0, firstFailure (filings_stream lib (msg_Body msg) mt)),
            \<lparr>header = copyHeaders (msg_Header msg) [],
             charset = (case params ''charset'' of Some cs \<Rightarrow> cs | None \<Rightarrow> ''UTF-8''),
             encoding = QuotedPrintable,
             parts = partsOf (filed (filings_stream lib (msg_Body msg) mt)),
             attachments = attachmentsOf (filed (filings_stream lib (msg_Body msg) mt)),
             embedded = embeddedOf (filed (filings_stream lib (msg_Body msg) mt))\<rparr>)"
  using assms
  by (simp add: ReadFrom_def readMessage_def Reset_def Let_def parseMultipart_eq
        split: option.splits)

subsection \<open>The examples of the specification\<close>

lemmas example_filings =
  partsStream_def part_plain_def part_html_def part_inline_png_def part_attached_pdf_def
  part_name_only_def part_no_disposition_def part_no_name_def part_7bit_def
  part_alternative_def part_alternative_7bit_def filings_part_unfold leafFiling_def
  resolvedName_def example_eval TrimSpace_def spaceRunes_def

text \<open>
  A multipart/mixed message with a multipart/alternative part of two leaves and one
  attachment gives two Parts and one attachment; the base64 leaf is decoded.
\<close>

lemma example_nested:
  "fst (ReadFrom example_lib example_Message (example_mixed [part_alternative, part_attached_pdf])) =
     (0, None) \<and>
   map contentType (parts (snd (ReadFrom example_lib example_Message
                                  (example_mixed [part_alternative, part_attached_pdf])))) =
     [''text/plain'', ''text/html''] \<and>
   map copier (parts (snd (ReadFrom example_lib example_Message
                             (example_mixed [part_alternative, part_attached_pdf])))) =
     [''hello'', ''hi''] \<and>
   map Name (attachments (snd (ReadFrom example_lib example_Message
                                 (example_mixed [part_alternative, part_attached_pdf])))) =
     [''y.pdf''] \<and>
   embedded (snd (ReadFrom example_lib example_Message
                    (example_mixed [part_alternative, part_attached_pdf]))) = []"
  by code_simp

text \<open>
  One inline image and one attachment: the image is embedded, the pdf attached.
\<close>

lemma example_inline_and_attached:
  "map Name (embedded (snd (ReadFrom example_lib example_Message
                              (example_mixed [part_inline_png, part_attached_pdf])))) = [''x.png''] \<and>
   map Name (attachments (snd (ReadFrom example_lib example_Message
                                 (example_mixed [part_inline_png, part_attached_pdf])))) = [''y.pdf'']"
  by code_simp

text \<open>
  The single-part message
  \<^verbatim>\<open>Subject: Hi / Mime-Version: 1.0 / Content-Type: text/plain; charset=us-ascii /
  Content-Transfer-Encoding: 8bit / (blank line) / hello\<close>
  is read without error, and the count returned with it is 0.
\<close>

lemma example_single_count:
  "fst (ReadFrom example_lib example_Message example_single) = (0, None)"
  by code_simp

section \<open>The claims\<close>

subsection \<open>C1: the count returned by ReadFrom\<close>

text \<open>
  C1.  The claim: for every input stream, \<^verbatim>\<open>ReadFrom\<close> returns as its first result
  the count of bytes it consumed from the stream.  The source declares the counter
  \<^verbatim>\<open>n\<close>, starts it at zero and returns it, and no statement writes to it: the
  first result is 0 for every library, Message and stream, also for a stream whose
  header and body were read in full.
\<close>

theorem ReadFrom_n_zero: "fst (fst (ReadFrom lib m rd)) = 0"
proof -
  let ?mw = "\<lparr>mr_r = rd, mr_n = 0, mr_depth = 0, mr_err = None\<rparr>"
  have "mr_n (fst (readMessage lib ?mw m)) = mr_n ?mw"
    by (subst readMessage_reader) simp
  then show ?thesis by (simp add: ReadFrom_def Let_def case_prod_beta)
qed

subsection \<open>C2: the body decoder\<close>

text \<open>
  C2 as the specification states it fails: with "8bit" for \<^verbatim>\<open>Unencoded\<close>, a part
  labelled "7bit" is not passed through, it fails with the unknown-encoding error; and
  for no library and no value of \<^verbatim>\<open>Unencoded\<close> are "7bit" and "binary" both passed
  through.
\<close>

theorem readPartBody_7bit_counterexample:
  "readPartBody example_lib example_messageReader part_7bit ''7bit'' =
     (example_messageReader\<lparr>mr_err := Some (UnknownPartEncoding ''7bit'')\<rparr>, None) \<and>
   \<not> (\<exists>lib. snd (readPartBody lib example_messageReader part_7bit ''7bit'') = Some ''hello'' \<and>
              snd (readPartBody lib example_messageReader part_7bit ''binary'') = Some ''hello'')"
proof
  show "readPartBody example_lib example_messageReader part_7bit ''7bit'' =
          (example_messageReader\<lparr>mr_err := Some (UnknownPartEncoding ''7bit'')\<rparr>, None)"
    by (simp add: readPartBody_def example_lib_def part_7bit_def bytesStream_def Base64_def
          QuotedPrintable_def Let_def)
  show "\<not> (\<exists>lib. snd (readPartBody lib example_messageReader part_7bit ''7bit'') = Some ''hello'' \<and>
              snd (readPartBody lib example_messageReader part_7bit ''binary'') = Some ''hello'')"
  proof
    assume "\<exists>lib. snd (readPartBody lib example_messageReader part_7bit ''7bit'') = Some ''hello'' \<and>
              snd (readPartBody lib example_messageReader part_7bit ''binary'') = Some ''hello''"
    then obtain lib where
      "snd (readPartBody lib example_messageReader part_7bit ''7bit'') = Some ''hello''"
      "snd (readPartBody lib example_messageReader part_7bit ''binary'') = Some ''hello''"
      by blast
    with readPartBody_7bit_or_binary [of lib example_messageReader part_7bit]
    show False by auto
  qed
qed

text \<open>
  C2, amended.  The body decoder, given a part and an encoding label,
  \<^item> for the label "base64" returns what the standard base64 decoder delivers for the
    bytes of the part, and the decoder's error (corrupt input, or a failed read) as
    the error;
  \<^item> for the empty label, for "quoted-printable" and for the one value of the
    constant \<^verbatim>\<open>Unencoded\<close> returns the bytes of the part unchanged (or the error of
    the read);
  \<^item> for every other label fails with the unknown-encoding error that names the
    label, and returns no reader.
\<close>

theorem readPartBody_dispatch:
  "readPartBody lib r p enc =
     (if enc = ''base64'' then
        (case Buffer_ReadFrom (base64_NewDecoder lib (Read (Body p))) of
           (body, None) \<Rightarrow> (r\<lparr>mr_err := None\<rparr>, Some body)
         | (body, Some e) \<Rightarrow> (r\<lparr>mr_err := Some e\<rparr>, None))
      else if enc = [] \<or> enc = ''quoted-printable'' \<or> enc = Unencoded lib then
        (if serr (Body p) = io_EOF then (r\<lparr>mr_err := None\<rparr>, Some (sbytes (Body p)))
         else (r\<lparr>mr_err := Some (serr (Body p))\<rparr>, None))
      else (r\<lparr>mr_err := Some (UnknownPartEncoding enc)\<rparr>, None))"
  by (auto simp add: readPartBody_def Base64_def QuotedPrintable_def Buffer_ReadFrom_def Read_def
        Let_def split: prod.splits option.splits)

theorem readPartBody_dispatch_witness:
  "readPartBody example_lib example_messageReader part_html ''base64'' =
     (example_messageReader\<lparr>mr_err := None\<rparr>, Some ''hi'') \<and>
   readPartBody example_lib example_messageReader part_plain ''8bit'' =
     (example_messageReader\<lparr>mr_err := None\<rparr>, Some ''hello'') \<and>
   readPartBody example_lib example_messageReader part_plain ''quoted-printable'' =
     (example_messageReader\<lparr>mr_err := None\<rparr>, Some ''hello'') \<and>
   readPartBody example_lib example_messageReader part_plain ''uuencode'' =
     (example_messageReader\<lparr>mr_err := Some (UnknownPartEncoding ''uuencode'')\<rparr>, None)"
  using readPartBody_dispatch [of example_lib example_messageReader part_html "''base64''"]
    readPartBody_dispatch [of example_lib example_messageReader part_plain "''8bit''"]
    readPartBody_dispatch [of example_lib example_messageReader part_plain "''quoted-printable''"]
    readPartBody_dispatch [of example_lib example_messageReader part_plain "''uuencode''"]
  by (simp add: example_lib_def example_NewDecoder_def part_html_def part_plain_def bytesStream_def
        Buffer_ReadFrom_def Read_def)

subsection \<open>C3: a named part without a Content-Disposition header\<close>

text \<open>
  C3 as the specification states it fails.  The part has the Content-Type
  "application/pdf; name=a.pdf" and no Content-Disposition header, inside a
  multipart/mixed message: the parse ends with the error of the media-type parser on
  the empty value, and no attachment is filed.
\<close>

theorem ReadFrom_without_disposition_counterexample:
  "map_of (Header part_no_disposition) ''Content-Disposition'' = None \<and>
   (case ParseMediaType example_lib (Get (Header part_no_disposition) ''Content-Type'') of
      Inl e \<Rightarrow> False
    | Inr (mt, params) \<Rightarrow> mt = ''application/pdf'' \<and> params ''name'' = Some ''a.pdf'') \<and>
   snd (fst (ReadFrom example_lib example_Message (example_mixed [part_no_disposition]))) =
     Some (LibraryError ''mime: no media type'') \<and>
   attachments (snd (ReadFrom example_lib example_Message (example_mixed [part_no_disposition]))) = []"
  by code_simp

text \<open>
  C3, amended.  For a leaf part that is classified as a file (the enclosing media type
  is not "multipart/alternative"):
  \<^item> if it has no Content-Disposition header at all, the media-type parser rejecting
    the empty value, then, whether or not its Content-Type carries a name, the parse
    of the part fails and the Message is unchanged, so the part is filed nowhere; the
    error is the error of the body decoder if the body does not decode, and otherwise
    the error of the media-type parser on the empty disposition value;
  \<^item> if its body decodes, its Content-Disposition header parses to a value other than
    "inline" without a "filename" parameter, and its Content-Type carries a non-blank
    "name", the parse of the part succeeds and the file is appended to the attachments
    under that name.
\<close>

theorem parsePart_without_disposition:
  "(ParseMediaType lib (Get hdr ''Content-Type'') = Inr (mt, params) \<and>
    \<not> prefix ''multipart/'' mt \<and> pmt \<noteq> ''multipart/alternative'' \<and>
    map_of hdr ''Content-Disposition'' = None \<and> ParseMediaType lib [] = Inl e
    \<longrightarrow> parsePart lib r m (MPart hdr bdy) pmt =
          (r\<lparr>mr_err := Some (case snd (partBody lib (MPart hdr bdy)
                                          (Get hdr ''Content-Transfer-Encoding'')) of
                                Some e' \<Rightarrow> e' | None \<Rightarrow> e)\<rparr>, m)) \<and>
   (ParseMediaType lib (Get hdr ''Content-Type'') = Inr (mt, params) \<and>
    \<not> prefix ''multipart/'' mt \<and> pmt \<noteq> ''multipart/alternative'' \<and>
    partBody lib (MPart hdr bdy) (Get hdr ''Content-Transfer-Encoding'') = (body, None) \<and>
    ParseMediaType lib (Get hdr ''Content-Disposition'') = Inr (disposition, dparams) \<and>
    disposition \<noteq> ''inline'' \<and> dparams ''filename'' = None \<and>
    params ''name'' = Some name \<and> TrimSpace name \<noteq> []
    \<longrightarrow> parsePart lib r m (MPart hdr bdy) pmt =
          (r\<lparr>mr_err := None\<rparr>,
           m\<lparr>attachments := attachments m @ [\<lparr>Name = name, fileHeader = hdr, CopyFunc = body\<rparr>]\<rparr>))"
proof (intro conjI impI)
  assume "ParseMediaType lib (Get hdr ''Content-Type'') = Inr (mt, params) \<and>
    \<not> prefix ''multipart/'' mt \<and> pmt \<noteq> ''multipart/alternative'' \<and>
    map_of hdr ''Content-Disposition'' = None \<and> ParseMediaType lib [] = Inl e"
  then show "parsePart lib r m (MPart hdr bdy) pmt =
          (r\<lparr>mr_err := Some (case snd (partBody lib (MPart hdr bdy)
                                          (Get hdr ''Content-Transfer-Encoding'')) of
                                Some e' \<Rightarrow> e' | None \<Rightarrow> e)\<rparr>, m)"
    by (simp add: parsePart_absent_disposition)
next
  assume b: "ParseMediaType lib (Get hdr ''Content-Type'') = Inr (mt, params) \<and>
    \<not> prefix ''multipart/'' mt \<and> pmt \<noteq> ''multipart/alternative'' \<and>
    partBody lib (MPart hdr bdy) (Get hdr ''Content-Transfer-Encoding'') = (body, None) \<and>
    ParseMediaType lib (Get hdr ''Content-Disposition'') = Inr (disposition, dparams) \<and>
    disposition \<noteq> ''inline'' \<and> dparams ''filename'' = None \<and>
    params ''name'' = Some name \<and> TrimSpace name \<noteq> []"
  then have "leafFiling lib hdr bdy mt params pmt =
               FiledAttachment \<lparr>Name = name, fileHeader = hdr, CopyFunc = body\<rparr>"
    by (simp add: leafFiling_def resolvedName_def)
  with b show "parsePart lib r m (MPart hdr bdy) pmt =
          (r\<lparr>mr_err := None\<rparr>,
           m\<lparr>attachments := attachments m @ [\<lparr>Name = name, fileHeader = hdr, CopyFunc = body\<rparr>]\<rparr>)"
    by (simp add: parsePart_leaf)
qed

theorem parsePart_without_disposition_witness:
  "parsePart example_lib example_messageReader example_Message part_no_disposition
     ''multipart/mixed'' =
     (example_messageReader\<lparr>mr_err := Some (LibraryError ''mime: no media type'')\<rparr>,
      example_Message) \<and>
   parsePart example_lib example_messageReader example_Message part_name_only ''multipart/mixed'' =
     (example_messageReader\<lparr>mr_err := None\<rparr>,
      example_Message\<lparr>attachments :=
        [\<lparr>Name = ''a.pdf'', fileHeader = Header part_name_only, CopyFunc = ''PDF''\<rparr>]\<rparr>)"
proof -
  let ?h1 = "[(''Content-Type'', [''application/pdf; name=a.pdf''])]"
  let ?h2 = "[(''Content-Type'', [''application/pdf; name=a.pdf'']),
              (''Content-Disposition'', [''attachment''])]"
  let ?b = "bytesStream ''PDF''"
  have a: "ParseMediaType example_lib (Get ?h1 ''Content-Type'') =
             Inr (''application/pdf'', [''name'' \<mapsto> ''a.pdf'']) \<and>
           \<not> prefix ''multipart/'' ''application/pdf'' \<and>
           ''multipart/mixed'' \<noteq> ''multipart/alternative'' \<and>
           map_of ?h1 ''Content-Disposition'' = None \<and>
           ParseMediaType example_lib [] = Inl (LibraryError ''mime: no media type'')"
    by (simp add: example_lib_def example_ParseMediaType_def Get_def)
  have pb: "snd (partBody example_lib (MPart ?h1 ?b) (Get ?h1 ''Content-Transfer-Encoding'')) = None"
    by (simp add: example_eval)
  have b: "ParseMediaType example_lib (Get ?h2 ''Content-Type'') =
             Inr (''application/pdf'', [''name'' \<mapsto> ''a.pdf'']) \<and>
           \<not> prefix ''multipart/'' ''application/pdf'' \<and>
           ''multipart/mixed'' \<noteq> ''multipart/alternative'' \<and>
           partBody example_lib (MPart ?h2 ?b) (Get ?h2 ''Content-Transfer-Encoding'') =
             (''PDF'', None) \<and>
           ParseMediaType example_lib (Get ?h2 ''Content-Disposition'') =
             Inr (''attachment'', Map.empty) \<and>
           ''attachment'' \<noteq> ''inline'' \<and> Map.empty ''filename'' = (None :: string option) \<and>
           [''name'' \<mapsto> ''a.pdf''] ''name'' = Some ''a.pdf'' \<and> TrimSpace ''a.pdf'' \<noteq> []"
    by (simp add: example_eval TrimSpace_def spaceRunes_def)
  note 1 = parsePart_without_disposition
         [where lib = example_lib and hdr = "?h1" and mt = "''application/pdf''"
            and params = "[''name'' \<mapsto> ''a.pdf'']" and pmt = "''multipart/mixed''"
            and e = "LibraryError ''mime: no media type''" and r = example_messageReader
            and m = example_Message and bdy = "?b", THEN conjunct1, rule_format, OF a]
  note 2 = parsePart_without_disposition
         [where lib = example_lib and hdr = "?h2" and mt = "''application/pdf''"
            and params = "[''name'' \<mapsto> ''a.pdf'']" and pmt = "''multipart/mixed''"
            and r = example_messageReader and m = example_Message and bdy = "?b"
            and body = "''PDF''" and disposition = "''attachment''" and dparams = Map.empty
            and name = "''a.pdf''", THEN conjunct2, rule_format, OF b]
  from 1 pb 2 show ?thesis
    by (simp add: part_no_disposition_def part_name_only_def example_Message_def)
qed

subsection \<open>C4: the header mapping of the Message\<close>

text \<open>
  C4.  After every call of \<^verbatim>\<open>ReadFrom\<close>, whatever its outcome, the header mapping
  of the Message has no entry under "Content-Type" or "Mime-Version", nor under any
  key with one of these two as its canonical form; and when the envelope was read,
  every other field of the envelope (a Go map, so each key once) is in the mapping
  under its own key with its whole sequence of values.
\<close>

theorem ReadFrom_header:
  "map_of (header (snd (ReadFrom lib m rd))) ''Content-Type'' = None \<and>
   map_of (header (snd (ReadFrom lib m rd))) ''Mime-Version'' = None \<and>
   (CanonicalMIMEHeaderKey k = ''Content-Type'' \<or> CanonicalMIMEHeaderKey k = ''Mime-Version''
      \<longrightarrow> map_of (header (snd (ReadFrom lib m rd))) k = None) \<and>
   (mail_ReadMessage rd = Inr msg \<and> distinct (map fst (msg_Header msg)) \<and>
    CanonicalMIMEHeaderKey k \<noteq> ''Content-Type'' \<and> CanonicalMIMEHeaderKey k \<noteq> ''Mime-Version''
      \<longrightarrow> map_of (header (snd (ReadFrom lib m rd))) k = map_of (msg_Header msg) k)"
proof -
  have res: "map_of (header (snd (ReadFrom lib m rd))) k' = None"
    if "CanonicalMIMEHeaderKey k' = ''Content-Type'' \<or> CanonicalMIMEHeaderKey k' = ''Mime-Version''"
    for k'
    using copyHeaders_reserved [OF that, of _ "[]"]
    by (simp add: ReadFrom_snd readMessage_header split: sum.splits)
  have oth: "map_of (header (snd (ReadFrom lib m rd))) k = map_of (msg_Header msg) k"
    if "mail_ReadMessage rd = Inr msg" "distinct (map fst (msg_Header msg))"
       "CanonicalMIMEHeaderKey k \<noteq> ''Content-Type''" "CanonicalMIMEHeaderKey k \<noteq> ''Mime-Version''"
    using that copyHeaders_other [of "msg_Header msg" k "[]"]
    by (simp add: ReadFrom_snd readMessage_header split: option.splits)
  from res [of "''Content-Type''"] res [of "''Mime-Version''"] res [of k] oth
  show ?thesis by simp
qed

theorem ReadFrom_header_witness:
  "map_of (header (snd (ReadFrom example_lib example_Message example_single))) ''Content-Type'' = None \<and>
   map_of (header (snd (ReadFrom example_lib example_Message example_single))) ''Mime-Version'' = None \<and>
   map_of (header (snd (ReadFrom example_lib example_Message example_single))) ''Subject'' = Some [''Hi''] \<and>
   map_of (header (snd (ReadFrom example_lib example_Message example_single)))
     ''Content-Transfer-Encoding'' = Some [''8bit'']"
proof -
  let ?msg = "\<lparr>msg_Header =
                    [(''Subject'', [''Hi'']),
                     (''Mime-Version'', [''1.0'']),
                     (''Content-Type'', [''text/plain; charset=us-ascii'']),
                     (''Content-Transfer-Encoding'', [''8bit''])],
                  msg_Body = bytesStream ''hello''\<rparr>"
  have s: "mail_ReadMessage example_single = Inr ?msg \<and> distinct (map fst (msg_Header ?msg)) \<and>
           CanonicalMIMEHeaderKey ''Subject'' \<noteq> ''Content-Type'' \<and>
           CanonicalMIMEHeaderKey ''Subject'' \<noteq> ''Mime-Version''"
    by (simp add: example_single_def canonical_defs)
  have c: "mail_ReadMessage example_single = Inr ?msg \<and> distinct (map fst (msg_Header ?msg)) \<and>
           CanonicalMIMEHeaderKey ''Content-Transfer-Encoding'' \<noteq> ''Content-Type'' \<and>
           CanonicalMIMEHeaderKey ''Content-Transfer-Encoding'' \<noteq> ''Mime-Version''"
    by (simp add: example_single_def)
  from ReadFrom_header [of example_lib example_Message example_single "''Subject''" ?msg] s
       ReadFrom_header [of example_lib example_Message example_single "''Content-Transfer-Encoding''" ?msg] c
  show ?thesis by simp
qed

subsection \<open>C5: a message with a single body\<close>

text \<open>
  C5.  For every message whose top-level media type does not start with "multipart/",
  the parse succeeds and the Message has exactly one Part: its media type is the one
  of the envelope, its content is the body stream as it is (not decoded), its header
  has the Content-Type and Content-Transfer-Encoding fields of the envelope and no
  other key, its explicit encoding is the first Content-Transfer-Encoding value if
  that is not empty, and so is set only if the field is present; attachments and
  embedded files are empty.
\<close>

theorem ReadFrom_single_part:
  assumes "mail_ReadMessage rd = Inr msg"
    and "ParseMediaType lib (Get (msg_Header msg) ''Content-Type'') = Inr (mt, params)"
    and "\<not> prefix ''multipart/'' mt"
  shows "fst (ReadFrom lib m rd) = (0, None) \<and>
         (\<exists>p. parts (snd (ReadFrom lib m rd)) = [p] \<and>
              contentType p = mt \<and>
              copier p = sbytes (msg_Body msg) \<and>
              (\<forall>k. map_of (partHeader p) k =
                     (if k = ''Content-Type'' \<or> k = ''Content-Transfer-Encoding''
                      then map_of (msg_Header msg) k else None)) \<and>
              partEncoding p =
                (if Get (msg_Header msg) ''Content-Transfer-Encoding'' = [] then None
                 else Some (Get (msg_Header msg) ''Content-Transfer-Encoding'')) \<and>
              (partEncoding p \<noteq> None \<longrightarrow>
                 map_of (msg_Header msg) ''Content-Transfer-Encoding'' \<noteq> None)) \<and>
         attachments (snd (ReadFrom lib m rd)) = [] \<and>
         embedded (snd (ReadFrom lib m rd)) = []"
proof -
  let ?h = "msg_Header msg"
  let ?p = "\<lparr>contentType = mt, copier = sbytes (msg_Body msg),
             partHeader = CopyOnlyHeaders ?h [''Content-Type'', ''Content-Transfer-Encoding''],
             partEncoding = (if Get ?h ''Content-Transfer-Encoding'' = [] then None
                             else Some (Get ?h ''Content-Transfer-Encoding''))\<rparr>"
  have res: "ReadFrom lib m rd =
          ((0, None),
           (Reset m)\<lparr>header := copyHeaders ?h [],
                     charset := (case params ''charset'' of Some cs \<Rightarrow> cs | None \<Rightarrow> ''UTF-8''),
                     encoding := QuotedPrintable, parts := [?p]\<rparr>)"
    using assms
    by (simp add: ReadFrom_def readMessage_def Reset_def Let_def newPart_def newReaderCopier_def
          split: option.splits)
  have enc: "partEncoding ?p \<noteq> None \<longrightarrow> map_of ?h ''Content-Transfer-Encoding'' \<noteq> None"
    using Get_present [of ?h "''Content-Transfer-Encoding''"] by simp
  have hd: "\<forall>k. map_of (partHeader ?p) k =
                     (if k = ''Content-Type'' \<or> k = ''Content-Transfer-Encoding''
                      then map_of ?h k else None)"
    by (simp add: CopyOnlyHeaders_map_of)
  have "parts (snd (ReadFrom lib m rd)) = [?p]" by (simp add: res)
  with enc hd have "\<exists>p. parts (snd (ReadFrom lib m rd)) = [p] \<and>
              contentType p = mt \<and>
              copier p = sbytes (msg_Body msg) \<and>
              (\<forall>k. map_of (partHeader p) k =
                     (if k = ''Content-Type'' \<or> k = ''Content-Transfer-Encoding''
                      then map_of (msg_Header msg) k else None)) \<and>
              partEncoding p =
                (if Get (msg_Header msg) ''Content-Transfer-Encoding'' = [] then None
                 else Some (Get (msg_Header msg) ''Content-Transfer-Encoding'')) \<and>
              (partEncoding p \<noteq> None \<longrightarrow>
                 map_of (msg_Header msg) ''Content-Transfer-Encoding'' \<noteq> None)"
    by (intro exI [of _ ?p]) simp
  then show ?thesis by (simp add: res Reset_def)
qed

theorem ReadFrom_single_part_witness:
  "fst (ReadFrom example_lib example_Message example_single) = (0, None) \<and>
   (\<exists>p. parts (snd (ReadFrom example_lib example_Message example_single)) = [p] \<and>
        contentType p = ''text/plain'' \<and> copier p = ''hello'' \<and>
        map_of (partHeader p) ''Content-Type'' = Some [''text/plain; charset=us-ascii''] \<and>
        map_of (partHeader p) ''Subject'' = None \<and>
        partEncoding p = Some ''8bit'') \<and>
   attachments (snd (ReadFrom example_lib example_Message example_single)) = [] \<and>
   embedded (snd (ReadFrom example_lib example_Message example_single)) = []"
proof -
  let ?msg = "\<lparr>msg_Header =
                    [(''Subject'', [''Hi'']),
                     (''Mime-Version'', [''1.0'']),
                     (''Content-Type'', [''text/plain; charset=us-ascii'']),
                     (''Content-Transfer-Encoding'', [''8bit''])],
                  msg_Body = bytesStream ''hello''\<rparr>"
  have 1: "mail_ReadMessage example_single = Inr ?msg" by (simp add: example_single_def)
  have 2: "ParseMediaType example_lib (Get (msg_Header ?msg) ''Content-Type'') =
             Inr (''text/plain'', [''charset'' \<mapsto> ''us-ascii''])"
    by (simp add: example_lib_def example_ParseMediaType_def Get_def)
  have 3: "\<not> prefix ''multipart/'' ''text/plain''" by simp
  from ReadFrom_single_part [OF 1 2 3, of example_Message]
  have r: "fst (ReadFrom example_lib example_Message example_single) = (0, None)"
    and a: "attachments (snd (ReadFrom example_lib example_Message example_single)) = []"
    and e: "embedded (snd (ReadFrom example_lib example_Message example_single)) = []"
    and ex: "\<exists>p. parts (snd (ReadFrom example_lib example_Message example_single)) = [p] \<and>
          contentType p = ''text/plain'' \<and> copier p = ''hello'' \<and>
          (\<forall>k. map_of (partHeader p) k =
               (if k = ''Content-Type'' \<or> k = ''Content-Transfer-Encoding''
                then map_of (msg_Header ?msg) k else None)) \<and>
          partEncoding p = Some ''8bit''"
    by (simp_all add: Get_def bytesStream_def)
  from ex obtain p where
    p: "parts (snd (ReadFrom example_lib example_Message example_single)) = [p]"
       "contentType p = ''text/plain''" "copier p = ''hello''" "partEncoding p = Some ''8bit''"
    and k: "\<And>k. map_of (partHeader p) k =
               (if k = ''Content-Type'' \<or> k = ''Content-Transfer-Encoding''
                then map_of (msg_Header ?msg) k else None)"
    by blast
  from k [of "''Content-Type''"] k [of "''Subject''"]
  have "map_of (partHeader p) ''Content-Type'' = Some [''text/plain; charset=us-ascii'']"
    and "map_of (partHeader p) ''Subject'' = None"
    by simp_all
  with p r a e show ?thesis by blast
qed

subsection \<open>C6: the file name\<close>

text \<open>
  C6 as the specification states it fails in its second half.  The part has the
  Content-Type "image/png; name=n.png" and no Content-Disposition header, so only the
  Content-Type name is present: the name is not used, the parse ends with the error of
  the media-type parser on the empty disposition value, and no file is filed.
\<close>

theorem ReadFrom_name_only_counterexample:
  "(case ParseMediaType example_lib (Get (Header part_png_no_disposition) ''Content-Type'') of
      Inl e \<Rightarrow> False
    | Inr (mt, params) \<Rightarrow> mt = ''image/png'' \<and> params ''name'' = Some ''n.png'') \<and>
   map_of (Header part_png_no_disposition) ''Content-Disposition'' = None \<and>
   snd (fst (ReadFrom example_lib example_Message (example_mixed [part_png_no_disposition]))) =
     Some (LibraryError ''mime: no media type'') \<and>
   attachments (snd (ReadFrom example_lib example_Message
                       (example_mixed [part_png_no_disposition]))) = [] \<and>
   embedded (snd (ReadFrom example_lib example_Message
                    (example_mixed [part_png_no_disposition]))) = []"
  by code_simp

text \<open>
  C6, amended.  For a leaf part that is classified as a file:
  \<^item> if its body decodes and its Content-Disposition header parses with a non-blank
    "filename" parameter, the file is filed under that value, whatever the "name"
    parameter of the Content-Type is (the disposition takes precedence);
  \<^item> if its body decodes and its Content-Disposition header parses without a
    "filename" parameter, and the Content-Type has a non-blank "name" parameter, the
    file is filed under that name;
  \<^item> if it has no Content-Disposition header at all, the media-type parser rejecting
    the empty value, the parse of the part fails and the Message is unchanged: no file
    is filed, whatever the "name" parameter of the Content-Type is.
\<close>

theorem parsePart_file_name:
  assumes "ParseMediaType lib (Get hdr ''Content-Type'') = Inr (mt, params)"
    and "\<not> prefix ''multipart/'' mt"
    and "pmt \<noteq> ''multipart/alternative''"
  shows "(partBody lib (MPart hdr bdy) (Get hdr ''Content-Transfer-Encoding'') = (body, None) \<and>
          ParseMediaType lib (Get hdr ''Content-Disposition'') = Inr (disposition, dparams) \<and>
          dparams ''filename'' = Some fname \<and> TrimSpace fname \<noteq> [] \<longrightarrow>
            parsePart lib r m (MPart hdr bdy) pmt =
              (r\<lparr>mr_err := None\<rparr>,
               if disposition = ''inline''
               then m\<lparr>embedded := embedded m @ [\<lparr>Name = fname, fileHeader = hdr, CopyFunc = body\<rparr>]\<rparr>
               else m\<lparr>attachments := attachments m @ [\<lparr>Name = fname, fileHeader = hdr, CopyFunc = body\<rparr>]\<rparr>)) \<and>
         (partBody lib (MPart hdr bdy) (Get hdr ''Content-Transfer-Encoding'') = (body, None) \<and>
          ParseMediaType lib (Get hdr ''Content-Disposition'') = Inr (disposition, dparams) \<and>
          dparams ''filename'' = None \<and> params ''name'' = Some name \<and> TrimSpace name \<noteq> [] \<longrightarrow>
            parsePart lib r m (MPart hdr bdy) pmt =
              (r\<lparr>mr_err := None\<rparr>,
               if disposition = ''inline''
               then m\<lparr>embedded := embedded m @ [\<lparr>Name = name, fileHeader = hdr, CopyFunc = body\<rparr>]\<rparr>
               else m\<lparr>attachments := attachments m @ [\<lparr>Name = name, fileHeader = hdr, CopyFunc = body\<rparr>]\<rparr>)) \<and>
         (map_of hdr ''Content-Disposition'' = None \<and> ParseMediaType lib [] = Inl e \<longrightarrow>
            mr_err (fst (parsePart lib r m (MPart hdr bdy) pmt)) \<noteq> None \<and>
            snd (parsePart lib r m (MPart hdr bdy) pmt) = m)"
proof (intro conjI impI)
  assume "partBody lib (MPart hdr bdy) (Get hdr ''Content-Transfer-Encoding'') = (body, None) \<and>
          ParseMediaType lib (Get hdr ''Content-Disposition'') = Inr (disposition, dparams) \<and>
          dparams ''filename'' = Some fname \<and> TrimSpace fname \<noteq> []"
  with assms show "parsePart lib r m (MPart hdr bdy) pmt =
              (r\<lparr>mr_err := None\<rparr>,
               if disposition = ''inline''
               then m\<lparr>embedded := embedded m @ [\<lparr>Name = fname, fileHeader = hdr, CopyFunc = body\<rparr>]\<rparr>
               else m\<lparr>attachments := attachments m @ [\<lparr>Name = fname, fileHeader = hdr, CopyFunc = body\<rparr>]\<rparr>)"
    by (simp add: parsePart_leaf leafFiling_def resolvedName_def)
next
  assume "partBody lib (MPart hdr bdy) (Get hdr ''Content-Transfer-Encoding'') = (body, None) \<and>
          ParseMediaType lib (Get hdr ''Content-Disposition'') = Inr (disposition, dparams) \<and>
          dparams ''filename'' = None \<and> params ''name'' = Some name \<and> TrimSpace name \<noteq> []"
  with assms show "parsePart lib r m (MPart hdr bdy) pmt =
              (r\<lparr>mr_err := None\<rparr>,
               if disposition = ''inline''
               then m\<lparr>embedded := embedded m @ [\<lparr>Name = name, fileHeader = hdr, CopyFunc = body\<rparr>]\<rparr>
               else m\<lparr>attachments := attachments m @ [\<lparr>Name = name, fileHeader = hdr, CopyFunc = body\<rparr>]\<rparr>)"
    by (simp add: parsePart_leaf leafFiling_def resolvedName_def)
next
  assume a: "map_of hdr ''Content-Disposition'' = None \<and> ParseMediaType lib [] = Inl e"
  with assms show "mr_err (fst (parsePart lib r m (MPart hdr bdy) pmt)) \<noteq> None"
    by (simp add: parsePart_absent_disposition)
  from a assms show "snd (parsePart lib r m (MPart hdr bdy) pmt) = m"
    by (simp add: parsePart_absent_disposition)
qed

theorem parsePart_file_name_witness:
  "parsePart example_lib example_messageReader example_Message part_attached_pdf ''multipart/mixed'' =
     (example_messageReader\<lparr>mr_err := None\<rparr>,
      example_Message\<lparr>attachments :=
        [\<lparr>Name = ''y.pdf'', fileHeader = Header part_attached_pdf, CopyFunc = ''PDF''\<rparr>]\<rparr>) \<and>
   parsePart example_lib example_messageReader example_Message part_name_only ''multipart/mixed'' =
     (example_messageReader\<lparr>mr_err := None\<rparr>,
      example_Message\<lparr>attachments :=
        [\<lparr>Name = ''a.pdf'', fileHeader = Header part_name_only, CopyFunc = ''PDF''\<rparr>]\<rparr>) \<and>
   mr_err (fst (parsePart example_lib example_messageReader example_Message
                  part_png_no_disposition ''multipart/mixed'')) \<noteq> None \<and>
   snd (parsePart example_lib example_messageReader example_Message
          part_png_no_disposition ''multipart/mixed'') = example_Message"
proof -
  let ?h1 = "[(''Content-Type'', [''application/pdf; name=a.pdf'']),
              (''Content-Disposition'', [''attachment; filename=y.pdf''])]"
  let ?h2 = "[(''Content-Type'', [''application/pdf; name=a.pdf'']),
              (''Content-Disposition'', [''attachment''])]"
  let ?h3 = "[(''Content-Type'', [''image/png; name=n.png''])]"
  let ?b = "bytesStream ''PDF''"
  let ?b3 = "bytesStream ''PNG''"
  have ct1: "ParseMediaType example_lib (Get ?h1 ''Content-Type'') =
               Inr (''application/pdf'', [''name'' \<mapsto> ''a.pdf''])"
    and ct2: "ParseMediaType example_lib (Get ?h2 ''Content-Type'') =
               Inr (''application/pdf'', [''name'' \<mapsto> ''a.pdf''])"
    and ct3: "ParseMediaType example_lib (Get ?h3 ''Content-Type'') =
               Inr (''image/png'', [''name'' \<mapsto> ''n.png''])"
    and np: "\<not> prefix ''multipart/'' ''application/pdf''"
    and np3: "\<not> prefix ''multipart/'' ''image/png''"
    and na: "''multipart/mixed'' \<noteq> ''multipart/alternative''"
    by (simp_all add: example_eval)
  have h1: "partBody example_lib (MPart ?h1 ?b) (Get ?h1 ''Content-Transfer-Encoding'') = (''PDF'', None) \<and>
            ParseMediaType example_lib (Get ?h1 ''Content-Disposition'') =
               Inr (''attachment'', [''filename'' \<mapsto> ''y.pdf'']) \<and>
            [''filename'' \<mapsto> ''y.pdf''] ''filename'' = Some ''y.pdf'' \<and> TrimSpace ''y.pdf'' \<noteq> []"
    by (simp add: example_eval TrimSpace_def spaceRunes_def)
  have h2: "partBody example_lib (MPart ?h2 ?b) (Get ?h2 ''Content-Transfer-Encoding'') = (''PDF'', None) \<and>
            ParseMediaType example_lib (Get ?h2 ''Content-Disposition'') =
               Inr (''attachment'', Map.empty) \<and>
            Map.empty ''filename'' = (None :: string option) \<and>
            [''name'' \<mapsto> ''a.pdf''] ''name'' = Some ''a.pdf'' \<and> TrimSpace ''a.pdf'' \<noteq> []"
    by (simp add: example_eval TrimSpace_def spaceRunes_def)
  have h3: "map_of ?h3 ''Content-Disposition'' = None \<and>
            ParseMediaType example_lib [] = Inl (LibraryError ''mime: no media type'')"
    by (simp add: example_eval)
  note 1 = parsePart_file_name [OF ct1 np na, THEN conjunct1, rule_format, OF h1,
             of example_messageReader example_Message]
  note 2 = parsePart_file_name [OF ct2 np na, THEN conjunct2, THEN conjunct1, rule_format, OF h2,
             of example_messageReader example_Message]
  note 3 = parsePart_file_name [OF ct3 np3 na, THEN conjunct2, THEN conjunct2, rule_format, OF h3,
             of example_messageReader example_Message ?b3]
  from 1 2 3 show ?thesis
    by (simp add: part_attached_pdf_def part_name_only_def part_png_no_disposition_def
          example_Message_def)
qed

subsection \<open>C7: a blank file name\<close>

text \<open>
  C7 as the specification states it fails.  The part has the Content-Type
  "application/pdf" and no Content-Disposition header: it has neither a name nor a
  filename, so its file name is blank, and yet the parse ends with the error of the
  media-type parser on the empty disposition value, not with the blank-name error: the
  disposition is parsed (lines 152 to 155) before the name is checked (lines 162 to
  166).
\<close>

theorem ReadFrom_bare_part_counterexample:
  "(case ParseMediaType example_lib (Get (Header part_bare) ''Content-Type'') of
      Inl e \<Rightarrow> False
    | Inr (mt, params) \<Rightarrow> mt = ''application/pdf'' \<and> params ''name'' = None) \<and>
   map_of (Header part_bare) ''Content-Disposition'' = None \<and>
   snd (fst (ReadFrom example_lib example_Message (example_mixed [part_bare]))) =
     Some (LibraryError ''mime: no media type'') \<and>
   snd (fst (ReadFrom example_lib example_Message (example_mixed [part_bare]))) \<noteq>
     Some BlankFileName"
  by code_simp

text \<open>
  C7, amended.  For a leaf part that is classified as a file and whose body decodes:
  \<^item> if its Content-Disposition header parses and the resolved file name (the
    "filename" of the disposition, else the "name" of the Content-Type, else the empty
    string) is empty after trimming, the part fails with the error "Invalid blank file
    name" and the Message is unchanged, so the part is in neither collection; the loop
    over the parts returns with that error at once, whatever parts follow;
  \<^item> if it has no Content-Disposition header at all, the media-type parser rejecting
    the empty value, the part fails with the error of that parser and the Message is
    unchanged, and the loop over the parts returns with that error at once, whatever
    parts follow.
\<close>

theorem parsePart_blank_filename:
  assumes "ParseMediaType lib (Get hdr ''Content-Type'') = Inr (mt, params)"
    and "\<not> prefix ''multipart/'' mt"
    and "pmt \<noteq> ''multipart/alternative''"
  shows "(partBody lib (MPart hdr bdy) (Get hdr ''Content-Transfer-Encoding'') = (body, None) \<and>
          ParseMediaType lib (Get hdr ''Content-Disposition'') = Inr (disposition, dparams) \<and>
          TrimSpace (resolvedName params dparams) = [] \<longrightarrow>
            parsePart lib r m (MPart hdr bdy) pmt = (r\<lparr>mr_err := Some BlankFileName\<rparr>, m) \<and>
            nextPartLoop lib r m (MPart hdr bdy # ps) pe pmt =
              (r\<lparr>mr_err := Some BlankFileName\<rparr>, m)) \<and>
         (snd (partBody lib (MPart hdr bdy) (Get hdr ''Content-Transfer-Encoding'')) = None \<and>
          map_of hdr ''Content-Disposition'' = None \<and> ParseMediaType lib [] = Inl e \<longrightarrow>
            parsePart lib r m (MPart hdr bdy) pmt = (r\<lparr>mr_err := Some e\<rparr>, m) \<and>
            nextPartLoop lib r m (MPart hdr bdy # ps) pe pmt = (r\<lparr>mr_err := Some e\<rparr>, m)) \<and>
         Error BlankFileName = ''Invalid blank file name''"
proof (intro conjI impI)
  assume a: "partBody lib (MPart hdr bdy) (Get hdr ''Content-Transfer-Encoding'') = (body, None) \<and>
          ParseMediaType lib (Get hdr ''Content-Disposition'') = Inr (disposition, dparams) \<and>
          TrimSpace (resolvedName params dparams) = []"
  with assms have "leafFiling lib hdr bdy mt params pmt = Failed BlankFileName"
    by (simp add: leafFiling_def)
  with assms(1,2) have pp: "parsePart lib r' m (MPart hdr bdy) pmt = (r'\<lparr>mr_err := Some BlankFileName\<rparr>, m)"
    for r' by (simp add: parsePart_leaf)
  from pp [of r] show "parsePart lib r m (MPart hdr bdy) pmt = (r\<lparr>mr_err := Some BlankFileName\<rparr>, m)" .
  from pp [of "r\<lparr>mr_err := None\<rparr>"]
  show "nextPartLoop lib r m (MPart hdr bdy # ps) pe pmt = (r\<lparr>mr_err := Some BlankFileName\<rparr>, m)"
    by simp
next
  assume b: "snd (partBody lib (MPart hdr bdy) (Get hdr ''Content-Transfer-Encoding'')) = None \<and>
          map_of hdr ''Content-Disposition'' = None \<and> ParseMediaType lib [] = Inl e"
  with assms have pp: "parsePart lib r' m (MPart hdr bdy) pmt = (r'\<lparr>mr_err := Some e\<rparr>, m)"
    for r' by (simp add: parsePart_absent_disposition)
  from pp [of r] show "parsePart lib r m (MPart hdr bdy) pmt = (r\<lparr>mr_err := Some e\<rparr>, m)" .
  from pp [of "r\<lparr>mr_err := None\<rparr>"]
  show "nextPartLoop lib r m (MPart hdr bdy # ps) pe pmt = (r\<lparr>mr_err := Some e\<rparr>, m)"
    by simp
next
  show "Error BlankFileName = ''Invalid blank file name''" by simp
qed

theorem parsePart_blank_filename_witness:
  "parsePart example_lib example_messageReader example_Message part_no_name ''multipart/mixed'' =
     (example_messageReader\<lparr>mr_err := Some BlankFileName\<rparr>, example_Message) \<and>
   nextPartLoop example_lib example_messageReader example_Message
       [part_no_name, part_attached_pdf] io_EOF ''multipart/mixed'' =
     (example_messageReader\<lparr>mr_err := Some BlankFileName\<rparr>, example_Message) \<and>
   parsePart example_lib example_messageReader example_Message part_bare ''multipart/mixed'' =
     (example_messageReader\<lparr>mr_err := Some (LibraryError ''mime: no media type'')\<rparr>,
      example_Message) \<and>
   nextPartLoop example_lib example_messageReader example_Message
       [part_bare, part_attached_pdf] io_EOF ''multipart/mixed'' =
     (example_messageReader\<lparr>mr_err := Some (LibraryError ''mime: no media type'')\<rparr>,
      example_Message)"
proof -
  let ?h = "[(''Content-Type'', [''application/pdf'']), (''Content-Disposition'', [''attachment''])]"
  let ?h' = "[(''Content-Type'', [''application/pdf''])]"
  let ?b = "bytesStream ''PDF''"
  have ct: "ParseMediaType example_lib (Get ?h ''Content-Type'') = Inr (''application/pdf'', Map.empty)"
    and ct': "ParseMediaType example_lib (Get ?h' ''Content-Type'') = Inr (''application/pdf'', Map.empty)"
    and np: "\<not> prefix ''multipart/'' ''application/pdf''"
    and na: "''multipart/mixed'' \<noteq> ''multipart/alternative''"
    by (simp_all add: example_eval)
  have h: "partBody example_lib (MPart ?h ?b) (Get ?h ''Content-Transfer-Encoding'') = (''PDF'', None) \<and>
           ParseMediaType example_lib (Get ?h ''Content-Disposition'') = Inr (''attachment'', Map.empty) \<and>
           TrimSpace (resolvedName Map.empty Map.empty) = []"
    by (simp add: example_eval resolvedName_def TrimSpace_def)
  have h': "snd (partBody example_lib (MPart ?h' ?b) (Get ?h' ''Content-Transfer-Encoding'')) = None \<and>
            map_of ?h' ''Content-Disposition'' = None \<and>
            ParseMediaType example_lib [] = Inl (LibraryError ''mime: no media type'')"
    by (simp add: example_eval)
  note 1 = parsePart_blank_filename [OF ct np na, THEN conjunct1, rule_format, OF h,
             of example_messageReader example_Message "[part_attached_pdf]" io_EOF]
  note 2 = parsePart_blank_filename [OF ct' np na, THEN conjunct2, THEN conjunct1, rule_format, OF h',
             of example_messageReader example_Message "[part_attached_pdf]" io_EOF]
  from 1 2 show ?thesis by (simp add: part_no_name_def part_bare_def)
qed

subsection \<open>C8: embedded files and attachments\<close>

text \<open>
  C8.  A leaf part classified as a file that parses without error has a
  Content-Disposition that parses, and its file (the resolved name, the header of the
  part, the decoded body) is appended at the end of the embedded files if the
  disposition value is "inline", and at the end of the attachments for every other
  value; the other collection is as before.  Over a whole multipart stream, at every
  depth, the embedded files and the attachments that the walk adds are those of the
  parts in the order of the stream, up to the first failure.
\<close>

theorem filing_by_disposition:
  "(ParseMediaType lib (Get hdr ''Content-Type'') = Inr (mt, params) \<and>
    \<not> prefix ''multipart/'' mt \<and> pmt \<noteq> ''multipart/alternative'' \<and>
    mr_err (fst (parsePart lib r m (MPart hdr bdy) pmt)) = None
    \<longrightarrow> (\<exists>disposition dparams.
           ParseMediaType lib (Get hdr ''Content-Disposition'') = Inr (disposition, dparams) \<and>
           snd (parsePart lib r m (MPart hdr bdy) pmt) =
             (if disposition = ''inline''
              then m\<lparr>embedded := embedded m @
                     [\<lparr>Name = resolvedName params dparams, fileHeader = hdr,
                       CopyFunc = fst (partBody lib (MPart hdr bdy)
                                         (Get hdr ''Content-Transfer-Encoding''))\<rparr>]\<rparr>
              else m\<lparr>attachments := attachments m @
                     [\<lparr>Name = resolvedName params dparams, fileHeader = hdr,
                       CopyFunc = fst (partBody lib (MPart hdr bdy)
                                         (Get hdr ''Content-Transfer-Encoding''))\<rparr>]\<rparr>))) \<and>
   embedded (snd (parseMultipart lib r m s mt' b)) =
     embedded m @ embeddedOf (filed (filings_stream lib s mt')) \<and>
   attachments (snd (parseMultipart lib r m s mt' b)) =
     attachments m @ attachmentsOf (filed (filings_stream lib s mt'))"
proof (intro conjI impI)
  assume a: "ParseMediaType lib (Get hdr ''Content-Type'') = Inr (mt, params) \<and>
    \<not> prefix ''multipart/'' mt \<and> pmt \<noteq> ''multipart/alternative'' \<and>
    mr_err (fst (parsePart lib r m (MPart hdr bdy) pmt)) = None"
  let ?f = "leafFiling lib hdr bdy mt params pmt"
  from a have pp: "parsePart lib r m (MPart hdr bdy) pmt = (r\<lparr>mr_err := failure ?f\<rparr>, fileInto m ?f)"
    by (simp add: parsePart_leaf)
  with a have ok: "failure ?f = None" by simp
  obtain body eo where pb: "partBody lib (MPart hdr bdy) (Get hdr ''Content-Transfer-Encoding'') = (body, eo)"
    by (cases "partBody lib (MPart hdr bdy) (Get hdr ''Content-Transfer-Encoding'')")
  from ok a have eo: "eo = None"
    unfolding leafFiling_def pb by (cases eo) simp_all
  show "\<exists>disposition dparams.
           ParseMediaType lib (Get hdr ''Content-Disposition'') = Inr (disposition, dparams) \<and>
           snd (parsePart lib r m (MPart hdr bdy) pmt) =
             (if disposition = ''inline''
              then m\<lparr>embedded := embedded m @
                     [\<lparr>Name = resolvedName params dparams, fileHeader = hdr,
                       CopyFunc = fst (partBody lib (MPart hdr bdy)
                                         (Get hdr ''Content-Transfer-Encoding''))\<rparr>]\<rparr>
              else m\<lparr>attachments := attachments m @
                     [\<lparr>Name = resolvedName params dparams, fileHeader = hdr,
                       CopyFunc = fst (partBody lib (MPart hdr bdy)
                                         (Get hdr ''Content-Transfer-Encoding''))\<rparr>]\<rparr>)"
  proof (cases "ParseMediaType lib (Get hdr ''Content-Disposition'')")
    case (Inl e)
    with ok a eo show ?thesis unfolding leafFiling_def pb by simp
  next
    case (Inr res)
    obtain disposition dparams where res: "res = (disposition, dparams)" by (cases res)
    let ?file = "\<lparr>Name = resolvedName params dparams, fileHeader = hdr, CopyFunc = body\<rparr>"
    from ok a eo Inr res have nb: "TrimSpace (resolvedName params dparams) \<noteq> []"
      unfolding leafFiling_def pb by (auto split: if_splits)
    with a eo Inr res have "fileInto m ?f =
        (if disposition = ''inline'' then m\<lparr>embedded := embedded m @ [?file]\<rparr>
         else m\<lparr>attachments := attachments m @ [?file]\<rparr>)"
      unfolding leafFiling_def pb by simp
    with Inr res pp pb show ?thesis by auto
  qed
next
  show "embedded (snd (parseMultipart lib r m s mt' b)) =
          embedded m @ embeddedOf (filed (filings_stream lib s mt'))"
    by (simp add: walk_filings runFilings_eq)
  show "attachments (snd (parseMultipart lib r m s mt' b)) =
          attachments m @ attachmentsOf (filed (filings_stream lib s mt'))"
    by (simp add: walk_filings runFilings_eq)
qed

theorem filing_by_disposition_witness:
  "snd (parsePart example_lib example_messageReader example_Message part_inline_png ''multipart/mixed'') =
     example_Message\<lparr>embedded :=
       [\<lparr>Name = ''x.png'', fileHeader = Header part_inline_png, CopyFunc = ''PNG''\<rparr>]\<rparr> \<and>
   map Name (attachments (snd (parseMultipart example_lib example_messageReader example_Message
      (partsStream [part_attached_pdf, part_inline_png, part_name_only]) ''multipart/mixed'' ''b1''))) =
     [''y.pdf'', ''a.pdf''] \<and>
   map Name (embedded (snd (parseMultipart example_lib example_messageReader example_Message
      (partsStream [part_attached_pdf, part_inline_png, part_name_only]) ''multipart/mixed'' ''b1''))) =
     [''x.png'']"
proof -
  let ?h = "[(''Content-Type'', [''image/png; name=n.png'']),
             (''Content-Disposition'', [''inline; filename=x.png''])]"
  let ?b = "bytesStream ''PNG''"
  let ?s = "partsStream [part_attached_pdf, part_inline_png, part_name_only]"
  have ct: "ParseMediaType example_lib (Get ?h ''Content-Type'') =
              Inr (''image/png'', [''name'' \<mapsto> ''n.png''])"
    and cd: "ParseMediaType example_lib (Get ?h ''Content-Disposition'') =
              Inr (''inline'', [''filename'' \<mapsto> ''x.png''])"
    and pb: "partBody example_lib (MPart ?h ?b) (Get ?h ''Content-Transfer-Encoding'') = (''PNG'', None)"
    by (simp_all add: example_eval)
  have tr: "TrimSpace ''x.png'' \<noteq> []" by (simp add: TrimSpace_def spaceRunes_def)
  have ok: "mr_err (fst (parsePart example_lib example_messageReader example_Message (MPart ?h ?b)
                           ''multipart/mixed'')) = None"
    using ct cd pb tr
    by (simp add: parsePart_leaf [OF ct] leafFiling_def resolvedName_def)
  note t = filing_by_disposition [where lib = example_lib and hdr = ?h and mt = "''image/png''"
      and params = "[''name'' \<mapsto> ''n.png'']" and pmt = "''multipart/mixed''"
      and r = example_messageReader and m = example_Message and bdy = ?b and s = ?s
      and mt' = "''multipart/mixed''" and b = "''b1''"]
  from t ct ok cd pb
  have 1: "snd (parsePart example_lib example_messageReader example_Message (MPart ?h ?b)
                  ''multipart/mixed'') =
           example_Message\<lparr>embedded := embedded example_Message @
             [\<lparr>Name = ''x.png'', fileHeader = ?h, CopyFunc = ''PNG''\<rparr>]\<rparr>"
    by (simp add: resolvedName_def)
  have fs: "filings_stream example_lib ?s ''multipart/mixed'' =
      [FiledAttachment \<lparr>Name = ''y.pdf'', fileHeader = Header part_attached_pdf, CopyFunc = ''PDF''\<rparr>,
       FiledEmbedded \<lparr>Name = ''x.png'', fileHeader = Header part_inline_png, CopyFunc = ''PNG''\<rparr>,
       FiledAttachment \<lparr>Name = ''a.pdf'', fileHeader = Header part_name_only, CopyFunc = ''PDF''\<rparr>]"
    by (simp add: partsStream_def part_attached_pdf_def part_inline_png_def part_name_only_def
          filings_part_unfold leafFiling_def resolvedName_def example_eval TrimSpace_def
          spaceRunes_def)
  from t have 2: "embedded (snd (parseMultipart example_lib example_messageReader example_Message ?s
                                   ''multipart/mixed'' ''b1'')) =
                    embedded example_Message @ embeddedOf (filed (filings_stream example_lib ?s ''multipart/mixed''))"
    and 3: "attachments (snd (parseMultipart example_lib example_messageReader example_Message ?s
                                   ''multipart/mixed'' ''b1'')) =
                    attachments example_Message @ attachmentsOf (filed (filings_stream example_lib ?s ''multipart/mixed''))"
    by blast+
  from 2 3 have 4: "map Name (attachments (snd (parseMultipart example_lib example_messageReader
                      example_Message ?s ''multipart/mixed'' ''b1''))) = [''y.pdf'', ''a.pdf'']"
    and 5: "map Name (embedded (snd (parseMultipart example_lib example_messageReader
                      example_Message ?s ''multipart/mixed'' ''b1''))) = [''x.png'']"
    by (simp_all add: fs filed_def example_Message_def)
  from 1 have 6: "snd (parsePart example_lib example_messageReader example_Message part_inline_png
                         ''multipart/mixed'') =
     example_Message\<lparr>embedded :=
       [\<lparr>Name = ''x.png'', fileHeader = Header part_inline_png, CopyFunc = ''PNG''\<rparr>]\<rparr>"
    by (simp add: part_inline_png_def example_Message_def)
  from 4 5 6 show ?thesis by blast
qed

subsection \<open>C9: the first error ends the parse\<close>

text \<open>
  C9.  The walk is the list of filings of the stream, taken in order at every depth
  (\<open>walk_filings\<close>): it enters the filings before the first failure into the Message
  and returns the error of that failure.  So when the filings are \<open>fs1\<close> without a
  failure, then a failure with the error \<open>e\<close>, then anything: the result is the error
  \<open>e\<close> and the Message with the filings of \<open>fs1\<close> (nothing of what follows, and
  nothing taken back).  In terms of the source: the loop over the parts returns what
  the first failing part returns, whatever parts follow it; a nested multipart part
  returns what the walk of its content returns; and \<^verbatim>\<open>ReadFrom\<close> returns that error
  and leaves that Message.
\<close>

theorem first_error_aborts:
  "parseMultipart lib r m s mt b =
     (r\<lparr>mr_err := firstFailure (filings_stream lib s mt)\<rparr>,
      m\<lparr>parts := parts m @ partsOf (filed (filings_stream lib s mt)),
        attachments := attachments m @ attachmentsOf (filed (filings_stream lib s mt)),
        embedded := embedded m @ embeddedOf (filed (filings_stream lib s mt))\<rparr>) \<and>
   (filings_stream lib s mt = fs1 @ Failed e # fs2 \<and> firstFailure fs1 = None \<longrightarrow>
      parseMultipart lib r m s mt b =
        (r\<lparr>mr_err := Some e\<rparr>,
         m\<lparr>parts := parts m @ partsOf fs1,
           attachments := attachments m @ attachmentsOf fs1,
           embedded := embedded m @ embeddedOf fs1\<rparr>)) \<and>
   (mr_err (fst (nextPartLoop lib r m ps1 io_EOF mt)) = None \<and>
    mr_err (fst (parsePart lib r (snd (nextPartLoop lib r m ps1 io_EOF mt)) p mt)) = Some e'
    \<longrightarrow> nextPartLoop lib r m (ps1 @ p # ps2) pe mt =
          parsePart lib r (snd (nextPartLoop lib r m ps1 io_EOF mt)) p mt) \<and>
   (ParseMediaType lib (Get hdr ''Content-Type'') = Inr (mt', params) \<and> prefix ''multipart/'' mt'
    \<longrightarrow> parsePart lib r m (MPart hdr bdy) pmt =
          parseMultipart lib r m bdy mt'
            (case params ''boundary'' of Some pboundary \<Rightarrow> pboundary | None \<Rightarrow> [])) \<and>
   (mail_ReadMessage rd = Inr msg \<and>
    ParseMediaType lib (Get (msg_Header msg) ''Content-Type'') = Inr (tmt, tparams) \<and>
    prefix ''multipart/'' tmt \<and>
    filings_stream lib (msg_Body msg) tmt = gs1 @ Failed e'' # gs2 \<and> firstFailure gs1 = None
    \<longrightarrow> snd (fst (ReadFrom lib m0 rd)) = Some e'' \<and>
        parts (snd (ReadFrom lib m0 rd)) = partsOf gs1 \<and>
        attachments (snd (ReadFrom lib m0 rd)) = attachmentsOf gs1 \<and>
        embedded (snd (ReadFrom lib m0 rd)) = embeddedOf gs1)"
proof (intro conjI impI)
  show "parseMultipart lib r m s mt b =
     (r\<lparr>mr_err := firstFailure (filings_stream lib s mt)\<rparr>,
      m\<lparr>parts := parts m @ partsOf (filed (filings_stream lib s mt)),
        attachments := attachments m @ attachmentsOf (filed (filings_stream lib s mt)),
        embedded := embedded m @ embeddedOf (filed (filings_stream lib s mt))\<rparr>)"
    by (rule parseMultipart_eq)
next
  assume "filings_stream lib s mt = fs1 @ Failed e # fs2 \<and> firstFailure fs1 = None"
  then show "parseMultipart lib r m s mt b =
        (r\<lparr>mr_err := Some e\<rparr>,
         m\<lparr>parts := parts m @ partsOf fs1,
           attachments := attachments m @ attachmentsOf fs1,
           embedded := embedded m @ embeddedOf fs1\<rparr>)"
    by (simp add: parseMultipart_eq filed_append_Failed firstFailure_append_Failed)
next
  assume "mr_err (fst (nextPartLoop lib r m ps1 io_EOF mt)) = None \<and>
    mr_err (fst (parsePart lib r (snd (nextPartLoop lib r m ps1 io_EOF mt)) p mt)) = Some e'"
  then show "nextPartLoop lib r m (ps1 @ p # ps2) pe mt =
          parsePart lib r (snd (nextPartLoop lib r m ps1 io_EOF mt)) p mt"
    by (simp add: nextPartLoop_first_error)
next
  assume "ParseMediaType lib (Get hdr ''Content-Type'') = Inr (mt', params) \<and> prefix ''multipart/'' mt'"
  then show "parsePart lib r m (MPart hdr bdy) pmt =
          parseMultipart lib r m bdy mt'
            (case params ''boundary'' of Some pboundary \<Rightarrow> pboundary | None \<Rightarrow> [])"
    by (simp add: parsePart_nested)
next
  assume a: "mail_ReadMessage rd = Inr msg \<and>
    ParseMediaType lib (Get (msg_Header msg) ''Content-Type'') = Inr (tmt, tparams) \<and>
    prefix ''multipart/'' tmt \<and>
    filings_stream lib (msg_Body msg) tmt = gs1 @ Failed e'' # gs2 \<and> firstFailure gs1 = None"
  then have rf: "ReadFrom lib m0 rd =
           ((0, firstFailure (filings_stream lib (msg_Body msg) tmt)),
            \<lparr>header = copyHeaders (msg_Header msg) [],
             charset = (case tparams ''charset'' of Some cs \<Rightarrow> cs | None \<Rightarrow> ''UTF-8''),
             encoding = QuotedPrintable,
             parts = partsOf (filed (filings_stream lib (msg_Body msg) tmt)),
             attachments = attachmentsOf (filed (filings_stream lib (msg_Body msg) tmt)),
             embedded = embeddedOf (filed (filings_stream lib (msg_Body msg) tmt))\<rparr>)"
    by (simp add: ReadFrom_multipart)
  from a show "snd (fst (ReadFrom lib m0 rd)) = Some e''"
    by (simp add: rf firstFailure_append_Failed)
  from a show "parts (snd (ReadFrom lib m0 rd)) = partsOf gs1"
    by (simp add: rf filed_append_Failed)
  from a show "attachments (snd (ReadFrom lib m0 rd)) = attachmentsOf gs1"
    by (simp add: rf filed_append_Failed)
  from a show "embedded (snd (ReadFrom lib m0 rd)) = embeddedOf gs1"
    by (simp add: rf filed_append_Failed)
qed

theorem first_error_aborts_witness:
  "snd (fst (ReadFrom example_lib example_Message
               (example_mixed [part_inline_png, part_alternative_7bit, part_attached_pdf]))) =
     Some (UnknownPartEncoding ''7bit'') \<and>
   map contentType (parts (snd (ReadFrom example_lib example_Message
               (example_mixed [part_inline_png, part_alternative_7bit, part_attached_pdf])))) =
     [''text/plain''] \<and>
   attachments (snd (ReadFrom example_lib example_Message
               (example_mixed [part_inline_png, part_alternative_7bit, part_attached_pdf]))) = [] \<and>
   map Name (embedded (snd (ReadFrom example_lib example_Message
               (example_mixed [part_inline_png, part_alternative_7bit, part_attached_pdf])))) =
     [''x.png''] \<and>
   mr_err (fst (parseMultipart example_lib example_messageReader example_Message
                  (partsStream [part_inline_png, part_alternative_7bit, part_attached_pdf])
                  ''multipart/mixed'' ''b1'')) = Some (UnknownPartEncoding ''7bit'') \<and>
   nextPartLoop example_lib example_messageReader example_Message
       ([part_attached_pdf] @ part_no_name # [part_inline_png]) io_EOF ''multipart/mixed'' =
     (example_messageReader\<lparr>mr_err := Some BlankFileName\<rparr>,
      example_Message\<lparr>attachments :=
        [\<lparr>Name = ''y.pdf'', fileHeader = Header part_attached_pdf, CopyFunc = ''PDF''\<rparr>]\<rparr>) \<and>
   parsePart example_lib example_messageReader example_Message part_alternative_7bit ''multipart/mixed'' =
     parseMultipart example_lib example_messageReader example_Message
       (partsStream [part_plain, part_7bit]) ''multipart/alternative'' ''b2''"
proof -
  let ?ps = "[part_inline_png, part_alternative_7bit, part_attached_pdf]"
  let ?msg = "\<lparr>msg_Header =
                    [(''Subject'', [''Hi'']),
                     (''Mime-Version'', [''1.0'']),
                     (''Content-Type'', [''multipart/mixed; boundary=b1''])],
                  msg_Body = partsStream ?ps\<rparr>"
  let ?emb = "FiledEmbedded \<lparr>Name = ''x.png'', fileHeader = Header part_inline_png, CopyFunc = ''PNG''\<rparr>"
  let ?prt = "FiledPart \<lparr>contentType = ''text/plain'', copier = ''hello'',
                          partHeader = Header part_plain, partEncoding = None\<rparr>"
  let ?att = "FiledAttachment \<lparr>Name = ''y.pdf'', fileHeader = Header part_attached_pdf, CopyFunc = ''PDF''\<rparr>"
  let ?e = "UnknownPartEncoding ''7bit''"
  have fs: "filings_stream example_lib (partsStream ?ps) ''multipart/mixed'' =
              [?emb, ?prt] @ Failed ?e # [?att]"
    by (simp add: example_filings)
  have ok: "firstFailure [?emb, ?prt] = None" by (simp add: firstFailure_def)
  have rm: "mail_ReadMessage (example_mixed ?ps) = Inr ?msg" by (simp add: example_mixed_def)
  have ct: "ParseMediaType example_lib (Get (msg_Header ?msg) ''Content-Type'') =
              Inr (''multipart/mixed'', [''boundary'' \<mapsto> ''b1''])"
    by (simp add: example_eval)
  have pf: "prefix ''multipart/'' ''multipart/mixed''" by simp
  have fs': "filings_stream example_lib (msg_Body ?msg) ''multipart/mixed'' =
              [?emb, ?prt] @ Failed ?e # [?att]"
    by (simp add: fs)
  note t = first_error_aborts [where lib = example_lib and r = example_messageReader
      and m = example_Message and ?m0.0 = example_Message]
  note top = t [THEN conjunct2, THEN conjunct2, THEN conjunct2, THEN conjunct2, rule_format,
      OF conjI [OF rm conjI [OF ct conjI [OF pf conjI [OF fs' ok]]]]]
  note str = t [THEN conjunct2, THEN conjunct1, rule_format, OF conjI [OF fs ok]]
  have s1: "mr_err (fst (nextPartLoop example_lib example_messageReader example_Message
                           [part_attached_pdf] io_EOF ''multipart/mixed'')) = None"
    by (simp add: walk_filings example_filings)
  have s2: "parsePart example_lib example_messageReader
              (snd (nextPartLoop example_lib example_messageReader example_Message
                      [part_attached_pdf] io_EOF ''multipart/mixed''))
              part_no_name ''multipart/mixed'' =
            (example_messageReader\<lparr>mr_err := Some BlankFileName\<rparr>,
             example_Message\<lparr>attachments :=
               [\<lparr>Name = ''y.pdf'', fileHeader = Header part_attached_pdf, CopyFunc = ''PDF''\<rparr>]\<rparr>)"
    by (simp add: walk_filings example_filings example_Message_def)
  have s3: "mr_err (fst (parsePart example_lib example_messageReader
              (snd (nextPartLoop example_lib example_messageReader example_Message
                      [part_attached_pdf] io_EOF ''multipart/mixed''))
              part_no_name ''multipart/mixed'')) = Some BlankFileName"
    unfolding s2 by simp
  note sib = t [THEN conjunct2, THEN conjunct2, THEN conjunct1, rule_format, OF conjI [OF s1 s3],
      of "[part_inline_png]" io_EOF]
  have nct: "ParseMediaType example_lib
               (Get [(''Content-Type'', [''multipart/alternative; boundary=b2''])] ''Content-Type'') =
             Inr (''multipart/alternative'', [''boundary'' \<mapsto> ''b2''])"
    by (simp add: example_eval)
  have npf: "prefix ''multipart/'' ''multipart/alternative''" by simp
  note nest = t [THEN conjunct2, THEN conjunct2, THEN conjunct2, THEN conjunct1, rule_format,
      OF conjI [OF nct npf], of "partsStream [part_plain, part_7bit]" "''multipart/mixed''"]
  have sib': "nextPartLoop example_lib example_messageReader example_Message
       ([part_attached_pdf] @ part_no_name # [part_inline_png]) io_EOF ''multipart/mixed'' =
     (example_messageReader\<lparr>mr_err := Some BlankFileName\<rparr>,
      example_Message\<lparr>attachments :=
        [\<lparr>Name = ''y.pdf'', fileHeader = Header part_attached_pdf, CopyFunc = ''PDF''\<rparr>]\<rparr>)"
    unfolding sib s2 ..
  have nest': "parsePart example_lib example_messageReader example_Message part_alternative_7bit
                ''multipart/mixed'' =
     parseMultipart example_lib example_messageReader example_Message
       (partsStream [part_plain, part_7bit]) ''multipart/alternative'' ''b2''"
    unfolding part_alternative_7bit_def using nest by simp
  from top str have "snd (fst (ReadFrom example_lib example_Message (example_mixed ?ps))) = Some ?e"
    and "map contentType (parts (snd (ReadFrom example_lib example_Message (example_mixed ?ps)))) =
           [''text/plain'']"
    and "attachments (snd (ReadFrom example_lib example_Message (example_mixed ?ps))) = []"
    and "map Name (embedded (snd (ReadFrom example_lib example_Message (example_mixed ?ps)))) =
           [''x.png'']"
    and "mr_err (fst (parseMultipart example_lib example_messageReader example_Message
                  (partsStream ?ps) ''multipart/mixed'' ''b1'')) = Some ?e"
    by simp_all
  with sib' nest' show ?thesis by blast
qed

subsection \<open>C10: the charset of the Message\<close>

text \<open>
  C10.  The charset of the Message after \<^verbatim>\<open>ReadFrom\<close> is the "charset" parameter of
  the top-level Content-Type if the envelope was read, its Content-Type parsed and the
  parameter is there, and the default "UTF-8" otherwise; the walk of a multipart body
  and the parse of a part, whatever the Content-Type of the part says, leave the
  charset of the Message as it was.
\<close>

theorem charset_top_level_only:
  "charset (snd (ReadFrom lib m rd)) =
     (case mail_ReadMessage rd of
        Inl e \<Rightarrow> ''UTF-8''
      | Inr msg \<Rightarrow>
          (case ParseMediaType lib (Get (msg_Header msg) ''Content-Type'') of
             Inl e \<Rightarrow> ''UTF-8''
           | Inr (mt, params) \<Rightarrow> (case params ''charset'' of Some cs \<Rightarrow> cs | None \<Rightarrow> ''UTF-8''))) \<and>
   charset (snd (parseMultipart lib r m' s mt' b)) = charset m' \<and>
   charset (snd (parsePart lib r m' p pmt)) = charset m'"
proof (intro conjI)
  show "charset (snd (ReadFrom lib m rd)) =
     (case mail_ReadMessage rd of
        Inl e \<Rightarrow> ''UTF-8''
      | Inr msg \<Rightarrow>
          (case ParseMediaType lib (Get (msg_Header msg) ''Content-Type'') of
             Inl e \<Rightarrow> ''UTF-8''
           | Inr (mt, params) \<Rightarrow> (case params ''charset'' of Some cs \<Rightarrow> cs | None \<Rightarrow> ''UTF-8'')))"
    by (simp add: ReadFrom_snd readMessage_def Reset_def Let_def parseMultipart_frame
          split: sum.splits prod.splits option.splits)
  show "charset (snd (parseMultipart lib r m' s mt' b)) = charset m'"
    by (rule parseMultipart_frame)
  show "charset (snd (parsePart lib r m' p pmt)) = charset m'"
    by (simp add: walk_filings(3) runFilings_frame)
qed

theorem charset_top_level_only_witness:
  "charset (snd (ReadFrom example_lib example_Message (example_mixed [part_alternative]))) = ''UTF-8'' \<and>
   map contentType (parts (snd (ReadFrom example_lib example_Message
                                  (example_mixed [part_alternative])))) =
     [''text/plain'', ''text/html''] \<and>
   charset (snd (ReadFrom example_lib example_Message example_single)) = ''us-ascii'' \<and>
   charset (snd (parsePart example_lib example_messageReader example_Message part_html
                   ''multipart/alternative'')) = ''UTF-8''"
proof -
  have 1: "map contentType (parts (snd (ReadFrom example_lib example_Message
                                  (example_mixed [part_alternative])))) =
     [''text/plain'', ''text/html'']"
    by code_simp
  from charset_top_level_only [of example_lib example_Message "example_mixed [part_alternative]"
         example_messageReader example_Message "partsStream []" "''multipart/mixed''" "''b1''"
         part_html "''multipart/alternative''"]
       charset_top_level_only [of example_lib example_Message example_single
         example_messageReader example_Message "partsStream []" "''multipart/mixed''" "''b1''"
         part_html "''multipart/alternative''"]
  have "charset (snd (ReadFrom example_lib example_Message (example_mixed [part_alternative]))) = ''UTF-8''"
    and "charset (snd (ReadFrom example_lib example_Message example_single)) = ''us-ascii''"
    and "charset (snd (parsePart example_lib example_messageReader example_Message part_html
                   ''multipart/alternative'')) = ''UTF-8''"
    by (simp_all add: example_mixed_def example_single_def example_eval example_Message_def)
  with 1 show ?thesis by blast
qed

end
